theory Spec2Isabelle
  imports Complex_Main
begin

section \<open>Python strings and builtins\<close>

text \<open>
  Strings are lists of characters. \<open>split_on c s\<close> is Python's \<open>s.split(c)\<close> for a
  one-character separator: it always returns at least one field, and an empty string
  gives the single empty field.
\<close>

fun split_on :: "char \<Rightarrow> string \<Rightarrow> string list" where
  "split_on c [] = [[]]"
| "split_on c (x # xs) =
     (if x = c then [] # split_on c xs
      else (case split_on c xs of
              [] \<Rightarrow> [[x]]
            | p # ps \<Rightarrow> (x # p) # ps))"

text \<open>
  \<open>strip\<close> is \<open>str.strip()\<close> without argument: it removes leading and trailing
  whitespace, which among the ASCII characters is \<open>\t \n \v \f \r\<close>, the separators
  \<open>0x1C .. 0x1F\<close> and the blank.
\<close>

definition isspace :: "char \<Rightarrow> bool" where
  "isspace c = (of_char c \<in> {9, 10, 11, 12, 13, 28, 29, 30, 31, 32 :: nat})"

definition strip :: "string \<Rightarrow> string" where
  "strip s = rev (dropWhile isspace (rev (dropWhile isspace s)))"

text \<open>
  \<open>endswith s suf\<close> is \<open>s.endswith(suf)\<close>.
\<close>

definition endswith :: "string \<Rightarrow> string \<Rightarrow> bool" where
  "endswith s suf = (length suf \<le> length s \<and> drop (length s - length suf) s = suf)"

text \<open>
  A Python value used as a condition (\<open>if x:\<close>) where \<open>x\<close> is \<open>None\<close> or a string:
  \<open>None\<close> and the empty string are false.
\<close>

fun truthy :: "string option \<Rightarrow> bool" where
  "truthy None = False"
| "truthy (Some s) = (s \<noteq> [])"

text \<open>
  A Python float is a number or NaN. The numbers are any linearly ordered type \<open>'f\<close>
  with a one; it may hold the two infinities. Every comparison with NaN is false, also
  \<open>nan == nan\<close>.
\<close>

datatype 'f pyfloat = NaN | Num 'f

fun float_lt :: "('f::linorder) pyfloat \<Rightarrow> 'f pyfloat \<Rightarrow> bool" where
  "float_lt (Num a) (Num b) = (a < b)"
| "float_lt _ _ = False"

fun float_eq :: "'f pyfloat \<Rightarrow> 'f pyfloat \<Rightarrow> bool" where
  "float_eq (Num a) (Num b) = (a = b)"
| "float_eq _ _ = False"

text \<open>
  \<open>max(a, b)\<close> starts with \<open>a\<close> and takes \<open>b\<close> when \<open>b > a\<close>; so
  \<open>max(nan, 1.0)\<close> is NaN.
\<close>

definition float_max :: "('f::linorder) pyfloat \<Rightarrow> 'f pyfloat \<Rightarrow> 'f pyfloat" where
  "float_max a b = (if float_lt a b then b else a)"

text \<open>
  The builtins \<open>int()\<close>, \<open>float()\<close> and \<open>str.isdigit()\<close> and the division of
  floats are not code of the repository; the model takes them as a parameter.
  \<open>None\<close> stands for the \<open>ValueError\<close> the builtin raises; \<open>float()\<close> can
  return NaN (it reads \<open>nan\<close>), and a division can (\<open>inf / inf\<close>). No law of the
  division is assumed. Where the source divides, the divisor is
  \<open>max(mem_total, 1.0)\<close>, which is never zero, so the division does not raise.
\<close>

record 'f builtins =
  py_int :: "string \<Rightarrow> int option"
  py_float :: "string \<Rightarrow> 'f pyfloat option"
  py_isdigit :: "string \<Rightarrow> bool"
  py_truediv :: "'f pyfloat \<Rightarrow> 'f pyfloat \<Rightarrow> 'f pyfloat"

section \<open>Logging\<close>

datatype level = INFO | WARNING | ERROR

text \<open>
  One constructor for each logging call of \<open>pick_free_gpu\<close>; the argument of the last
  one is the selected index.
\<close>

datatype gpu_msg =
    VisibleDevicesUnparsable
  | NvidiaSmiFailed
  | NoValidGpu
  | GpuSelected int

type_synonym gpu_log = "(level \<times> gpu_msg) list"

section \<open>run\_cryoatom\_auto.py: pick\_free\_gpu\<close>

text \<open>
  The set comprehension over \<open>CUDA_VISIBLE_DEVICES\<close>:
  \<open>{int(x) for x in visible.split(",") if x.strip().isdigit()}\<close>. \<open>int\<close> is applied
  to the unstripped field; the first \<open>ValueError\<close> ends the comprehension.
\<close>

fun ints_of :: "(string \<Rightarrow> int option) \<Rightarrow> string list \<Rightarrow> int list option" where
  "ints_of f [] = Some []"
| "ints_of f (x # xs) =
     (case f x of
        None \<Rightarrow> None
      | Some i \<Rightarrow> (case ints_of f xs of None \<Rightarrow> None | Some js \<Rightarrow> Some (i # js)))"

text \<open>
  Lines 71--81. The result is the allow-list (\<open>None\<close>: no restriction) and the
  warnings logged. An unset or empty variable gives no restriction; an exception in the
  comprehension is caught, logged as a warning and gives no restriction either.
\<close>

definition allowed_of :: "'f builtins \<Rightarrow> string option \<Rightarrow> int set option \<times> gpu_log" where
  "allowed_of lib visible =
     (if truthy visible then
        (case ints_of (py_int lib)
                (filter (\<lambda>x. py_isdigit lib (strip x)) (split_on (CHR '','') (the visible))) of
           None \<Rightarrow> (None, [(WARNING, VisibleDevicesUnparsable)])
         | Some js \<Rightarrow> (Some (set js), []))
      else (None, []))"

text \<open>
  Lines 100--109: one line of the listing. \<open>None\<close> is the \<open>continue\<close> of a line with
  fewer than four fields or with a field that does not parse.
\<close>

definition parse_line ::
  "'f builtins \<Rightarrow> string \<Rightarrow> (int \<times> 'f pyfloat \<times> 'f pyfloat \<times> 'f pyfloat) option" where
  "parse_line lib line =
     (let parts = map strip (split_on (CHR '','') line) in
      if length parts < 4 then None
      else
        (case py_int lib (parts ! 0) of
           None \<Rightarrow> None
         | Some idx \<Rightarrow>
        (case py_float lib (parts ! 1) of
           None \<Rightarrow> None
         | Some mem_used \<Rightarrow>
        (case py_float lib (parts ! 2) of
           None \<Rightarrow> None
         | Some mem_total \<Rightarrow>
        (case py_float lib (parts ! 3) of
           None \<Rightarrow> None
         | Some util \<Rightarrow> Some (idx, mem_used, mem_total, util))))))"

text \<open>
  Python compares tuples at the first position where the elements are not equal
  (\<open>==\<close>); tuples whose elements are equal at every position are not less. The
  floats of two scores are different objects, so only \<open>==\<close> decides equality.
\<close>

fun score_lt :: "('f::linorder) pyfloat \<times> 'f pyfloat \<Rightarrow> 'f pyfloat \<times> 'f pyfloat \<Rightarrow> bool" where
  "score_lt (a, b) (c, d) = (if \<not> float_eq a c then float_lt a c else float_lt b d)"

text \<open>
  Lines 111--119: the body of the loop after parsing, on the state
  \<open>(best_idx, best_score)\<close>.
\<close>

definition consider_gpu ::
  "('f::{linorder,one}) builtins \<Rightarrow> int set option \<Rightarrow> int \<times> ('f pyfloat \<times> 'f pyfloat) option
     \<Rightarrow> int \<times> 'f pyfloat \<times> 'f pyfloat \<times> 'f pyfloat
     \<Rightarrow> int \<times> ('f pyfloat \<times> 'f pyfloat) option" where
  "consider_gpu lib allowed st g =
     (case g of (idx, mem_used, mem_total, util) \<Rightarrow>
        if allowed \<noteq> None \<and> idx \<notin> the allowed then st
        else
          (let mem_ratio = py_truediv lib mem_used (float_max mem_total (Num 1));
               score = (mem_ratio, util)
           in if snd st = None \<or> score_lt score (the (snd st)) then (idx, Some score)
              else st))"

fun scan_lines ::
  "('f::{linorder,one}) builtins \<Rightarrow> int set option \<Rightarrow> string list
     \<Rightarrow> int \<times> ('f pyfloat \<times> 'f pyfloat) option \<Rightarrow> int \<times> ('f pyfloat \<times> 'f pyfloat) option" where
  "scan_lines lib allowed [] st = st"
| "scan_lines lib allowed (line # rest) st =
     (case parse_line lib line of
        None \<Rightarrow> scan_lines lib allowed rest st
      | Some g \<Rightarrow> scan_lines lib allowed rest (consider_gpu lib allowed st g))"

text \<open>
  The telemetry query: \<open>None\<close> is any exception of \<open>subprocess.check_output\<close> (the
  tool is absent, or exits non-zero); \<open>Some ls\<close> is the output, as the lines of
  \<open>out.strip().splitlines()\<close>.
\<close>

type_synonym telemetry = "string list option"

definition pick_free_gpu ::
  "('f::{linorder,one}) builtins \<Rightarrow> string option \<Rightarrow> telemetry \<Rightarrow> int \<times> gpu_log" where
  "pick_free_gpu lib visible tel =
     (case allowed_of lib visible of (allowed, log0) \<Rightarrow>
      (case tel of
         None \<Rightarrow> (0, log0 @ [(WARNING, NvidiaSmiFailed)])
       | Some ls \<Rightarrow>
           (case scan_lines lib allowed ls (0, None) of (best_idx, best_score) \<Rightarrow>
              if best_score = None then (0, log0 @ [(WARNING, NoValidGpu)])
              else (best_idx, log0 @ [(INFO, GpuSelected best_idx)]))))"

section \<open>pathlib\<close>

text \<open>
  A \<open>pathlib.Path\<close> on POSIX is its root (\<open>""\<close>, \<open>"/"\<close> or \<open>"//"\<close>) and its
  components. \<open>Path s\<close> parses a string: exactly two leading slashes are kept as the
  root, empty components and \<open>.\<close> are dropped. Two paths are equal when root and
  components are.
\<close>

datatype path = PosixPath (anchor: string) (parts: "string list")

definition Path :: "string \<Rightarrow> path" where
  "Path s =
     PosixPath
       (if take 1 s = ''/'' then (if take 2 s = ''//'' \<and> take 3 s \<noteq> ''///'' then ''//'' else ''/'')
        else [])
       (filter (\<lambda>x. x \<noteq> [] \<and> x \<noteq> ''.'') (split_on (CHR ''/'') s))"

text \<open>\<open>join p q\<close> is \<open>p / q\<close> for a path \<open>q\<close>: an absolute right operand replaces \<open>p\<close>.\<close>

definition join :: "path \<Rightarrow> path \<Rightarrow> path" where
  "join p q = (if anchor q \<noteq> [] then q else PosixPath (anchor p) (parts p @ parts q))"

text \<open>\<open>joinpath p s\<close> is \<open>p / s\<close> for a string \<open>s\<close>.\<close>

definition joinpath :: "path \<Rightarrow> string \<Rightarrow> path" where
  "joinpath p s = join p (Path s)"

definition is_absolute :: "path \<Rightarrow> bool" where
  "is_absolute p = (anchor p \<noteq> [])"

fun intercalate :: "string \<Rightarrow> string list \<Rightarrow> string" where
  "intercalate sep [] = []"
| "intercalate sep [x] = x"
| "intercalate sep (x # y # ys) = x @ sep @ intercalate sep (y # ys)"

text \<open>\<open>str p\<close> is \<open>str(p)\<close>; the empty path prints as \<open>.\<close>.\<close>

definition str :: "path \<Rightarrow> string" where
  "str p = (if anchor p = [] \<and> parts p = [] then ''.'' else anchor p @ intercalate ''/'' (parts p))"

section \<open>run\_cryoatom.py: choose\_map\_field\<close>

text \<open>
  A row of a dataset is an association list: the order of its keys is the order of
  \<open>row.keys()\<close>. The two \<open>RuntimeError\<close>s of \<open>choose_map_field\<close> carry what
  their messages print: the requested field and the keys.
\<close>

type_synonym row = "(string \<times> string) list"

datatype error =
    FieldNotFound string "string list"
  | NoPathFieldFound "string list"

definition preferred :: "string list" where
  "preferred = [''map_sharp/path'', ''map/path'', ''map_half_A/path'', ''map_half_B/path'']"

text \<open>\<open>for k in preferred: if k in keys: return k\<close>\<close>

fun first_present :: "string list \<Rightarrow> string list \<Rightarrow> string option" where
  "first_present [] keys = None"
| "first_present (k # ks) keys = (if k \<in> set keys then Some k else first_present ks keys)"

text \<open>\<open>for k in keys: if k.endswith("/path"): return k\<close>\<close>

fun first_path_key :: "string list \<Rightarrow> string option" where
  "first_path_key [] = None"
| "first_path_key (k # ks) = (if endswith k ''/path'' then Some k else first_path_key ks)"

definition choose_map_field :: "row \<Rightarrow> string option \<Rightarrow> error + string" where
  "choose_map_field row explicit =
     (let keys = map fst row in
      if truthy explicit then
        (if the explicit \<in> set keys then Inr (the explicit)
         else Inl (FieldNotFound (the explicit) keys))
      else
        (case first_present preferred keys of
           Some k \<Rightarrow> Inr k
         | None \<Rightarrow>
             (case first_path_key keys of
                Some k \<Rightarrow> Inr k
              | None \<Rightarrow> Inl (NoPathFieldFound keys))))"

section \<open>The environment of the scripts\<close>

text \<open>
  A CryoSPARC project or job, as far as the scripts read it: its \<open>uid\<close> and its
  \<open>dir\<close> (\<open>safe_dir\<close> reads it as attribute or method alike).
\<close>

record cs_object =
  uid :: string
  dir :: string

type_synonym dataset = "row list"

text \<open>
  The object \<open>CryoSPARC(**CS)\<close> returns. A method that can raise returns an option
  (\<open>None\<close>: it raised); \<open>job_log_ok\<close> and \<open>ej_log_ok\<close> say whether \<open>job.log\<close> and
  the external job's \<open>log\<close> succeed.
\<close>

record session =
  find_project :: "string \<Rightarrow> cs_object option"
  find_job :: "string \<Rightarrow> string \<Rightarrow> cs_object option"
  load_output :: "cs_object \<Rightarrow> string \<Rightarrow> dataset option"
  job_log_ok :: "cs_object \<Rightarrow> bool"
  create_external_job :: "cs_object \<Rightarrow> string \<Rightarrow> string option"
  ej_log_ok :: bool

datatype script = RunCryoatom | RunCryoatomAuto | ExternalJob

text \<open>
  The command line of the modelling tool,
  \<open>cryoatom build -s seq_arg -v vol_arg -o out_arg [-d cuda:dev_arg]\<close>, and the
  directory it runs in.
\<close>

record tool_call =
  seq_arg :: string
  vol_arg :: string
  out_arg :: string
  dev_arg :: "int option"
  cwd :: string

text \<open>
  Everything outside the scripts. \<open>credentials\<close>: the required variables of the
  environment are set (the module-level \<open>get_env\<close> calls return). \<open>login s\<close>: the
  session script \<open>s\<close> obtains, or \<open>None\<close> when the constructor raises.
  \<open>realpath\<close> is \<open>Path.resolve()\<close>, which reads the current directory and the links
  of the file system (\<open>None\<close>: it raised). \<open>mkdir_ok\<close> and \<open>copy_ok\<close> say whether
  the operating system lets the operation succeed. \<open>cryoatom\<close> is the modelling tool:
  from its command line and the existing files to its return code and the files existing
  afterwards (\<open>None\<close>: the process could not be started).
\<close>

record world =
  credentials :: bool
  login :: "script \<Rightarrow> session option"
  realpath :: "path \<Rightarrow> path option"
  mkdir_ok :: "path \<Rightarrow> bool"
  copy_ok :: "path \<Rightarrow> path \<Rightarrow> bool"
  cryoatom :: "tool_call \<Rightarrow> path set \<Rightarrow> (int \<times> path set) option"
  script_dir :: path
  cuda_visible_devices :: "string option"
  nvidia_smi :: telemetry

text \<open>
  The parsed command line. \<open>run_cryoatom.py\<close> always has a \<open>gpu\<close> (its default is 0);
  only \<open>cryoatom_external_job.py\<close> reads \<open>workspace\<close>, and its \<open>--src-job\<close> is
  the field \<open>job\<close>.
\<close>

record args =
  project :: string
  job :: string
  workspace :: string
  fasta :: string
  volume_output :: string
  map_field :: "string option"
  row_index :: int
  out_dir :: "string option"
  no_copy_map :: bool
  gpu :: "int option"

text \<open>The logging calls of the three scripts, one constructor for each.\<close>

datatype msg =
    Connecting
  | ConnectFailed
  | ProjectNotFound string
  | JobNotFound string string
  | UsingJob string string
  | LoadOutputFailed string
  | OutputEmpty string
  | RowCount nat
  | RowIndexOutOfRange int nat
  | UsingRow int
  | ChooseFieldFailed error
  | ChoseField string string
  | ResolveFailed
  | MapNotFound path
  | ResolvedMap path
  | WorkDir path
  | FastaNotFound path
  | CopiedFasta path
  | NotCopyingMap path
  | CopiedMap path
  | OutputDir path
  | WillRun tool_call
  | Summary path bool path bool
  | ToolFailed int
  | Unhandled
  | Gpu gpu_msg
  | UserGpu int
  | ScriptNotFound path
  | Calling args
  | SubprocessFailed int
  | OutCifNotFound path
  | FoundOutCif path
  | CopiedBack path
  | JobLogWritten
  | JobLogFailed
  | AllDone path
  | FoundProject string
  | SourceJob string
  | UsingWorkspace string
  | CreateExternalJobFailed
  | CreatedExternalJob string
  | WillExecute args
  | ExternalJobFailed
  | ExternalJobDone string

text \<open>The lines \<open>cryoatom_external_job.py\<close> writes to the external job's log.\<close>

datatype ej_msg =
    EjStart string
  | EjCommand args
  | EjSubprocessFailed int
  | EjForwarded level
  | EjSubprocessOk
  | EjUsingCopy path
  | EjUsingWorkDir path
  | EjWarnNoModel path path
  | EjEndNoOutput
  | EjMounted path
  | EjComplete

text \<open>
  What a run does, in order: log records, the line \<open>job.log\<close> appends to the source
  job (job uid, GPU, published path), the lines of the external job, each attempted
  \<open>mkdir\<close> and \<open>copy2\<close>, each read \<open>ds[r]\<close> of a dataset of \<open>n\<close> rows
  (\<open>Index n r\<close>), each start of the modelling tool and the creation of an external job.
\<close>

datatype event =
    Log level msg
  | JobLog string int path
  | EjLog ej_msg
  | Mkdir path
  | Copy path path
  | Index nat int
  | RunTool tool_call
  | CreateExternalJob string

record state =
  files :: "path set"
  events :: "event list"

text \<open>
  How a call ends: it returns, it calls \<open>sys.exit\<close>, or it raises.
  \<open>CalledProcessError\<close> carries the return code; every other exception is
  \<open>OtherError\<close>.
\<close>

datatype exn = CalledProcessError int | OtherError

datatype 'a res = Ok 'a | SysExit int | Raised exn

definition and_then ::
  "'a res \<times> state \<Rightarrow> ('a \<Rightarrow> state \<Rightarrow> 'b res \<times> state) \<Rightarrow> 'b res \<times> state" where
  "and_then m f =
     (case m of
        (Ok x, st) \<Rightarrow> f x st
      | (SysExit c, st) \<Rightarrow> (SysExit c, st)
      | (Raised e, st) \<Rightarrow> (Raised e, st))"

definition emit :: "event \<Rightarrow> state \<Rightarrow> state" where
  "emit e st = st\<lparr>events := events st @ [e]\<rparr>"

text \<open>\<open>logger.exception\<close> logs at level \<open>ERROR\<close>.\<close>

definition logger :: "level \<Rightarrow> msg \<Rightarrow> state \<Rightarrow> state" where
  "logger l m st = emit (Log l m) st"

text \<open>
  \<open>p.mkdir(parents=True, exist_ok=True)\<close> and \<open>shutil.copy2(src, dst)\<close>: the attempt
  is an event; on success the path exists afterwards, on failure the call raises.
  \<open>copy2\<close> raises when the source does not exist.
\<close>

definition mkdir :: "world \<Rightarrow> path \<Rightarrow> state \<Rightarrow> unit res \<times> state" where
  "mkdir w p st =
     (let st1 = emit (Mkdir p) st in
      if mkdir_ok w p then (Ok (), st1\<lparr>files := insert p (files st1)\<rparr>)
      else (Raised OtherError, st1))"

definition copy2 :: "world \<Rightarrow> path \<Rightarrow> path \<Rightarrow> state \<Rightarrow> unit res \<times> state" where
  "copy2 w src dst st =
     (let st1 = emit (Copy src dst) st in
      if src \<in> files st1 \<and> copy_ok w src dst then (Ok (), st1\<lparr>files := insert dst (files st1)\<rparr>)
      else (Raised OtherError, st1))"

definition safe_dir :: "cs_object \<Rightarrow> path" where
  "safe_dir obj = Path (dir obj)"

text \<open>
  \<open>ds[r]\<close>: Python counts a negative index from the end and raises \<open>IndexError\<close>
  out of range.
\<close>

definition getitem :: "dataset \<Rightarrow> int \<Rightarrow> state \<Rightarrow> row res \<times> state" where
  "getitem ds r st =
     (let n = int (length ds); st1 = emit (Index (length ds) r) st in
      if 0 \<le> r \<and> r < n then (Ok (ds ! nat r), st1)
      else if - n \<le> r \<and> r < 0 then (Ok (ds ! nat (n + r)), st1)
      else (Raised OtherError, st1))"

text \<open>
  The exit status a parent process reads after \<open>sys.exit(c)\<close>: the low eight bits.
\<close>

definition exit_status :: "int \<Rightarrow> int" where
  "exit_status c = c mod 256"

section \<open>run\_cryoatom.py: main\<close>

text \<open>Lines 144--163: the session, the project and the job.\<close>

definition rc_connect ::
  "world \<Rightarrow> args \<Rightarrow> state \<Rightarrow> (session \<times> cs_object \<times> cs_object) res \<times> state" where
  "rc_connect w a st =
     (let st1 = logger INFO Connecting st in
      case login w RunCryoatom of
        None \<Rightarrow> (SysExit 1, logger ERROR ConnectFailed st1)
      | Some cs \<Rightarrow>
          (case find_project cs (project a) of
             None \<Rightarrow> (SysExit 1, logger ERROR (ProjectNotFound (project a)) st1)
           | Some proj \<Rightarrow>
               (case find_job cs (project a) (job a) of
                  None \<Rightarrow> (SysExit 1, logger ERROR (JobNotFound (project a) (job a)) st1)
                | Some jb \<Rightarrow>
                    (Ok (cs, proj, jb), logger INFO (UsingJob (uid proj) (uid jb)) st1))))"

text \<open>Lines 165--186: the dataset and the row.\<close>

definition rc_select_row ::
  "session \<Rightarrow> args \<Rightarrow> cs_object \<Rightarrow> state \<Rightarrow> row res \<times> state" where
  "rc_select_row cs a jb st =
     (case load_output cs jb (volume_output a) of
        None \<Rightarrow> (SysExit 1, logger ERROR (LoadOutputFailed (volume_output a)) st)
      | Some ds \<Rightarrow>
          if length ds = 0 then (SysExit 1, logger ERROR (OutputEmpty (volume_output a)) st)
          else
            (let st1 = logger INFO (RowCount (length ds)) st in
             if \<not> (0 \<le> row_index a \<and> row_index a < int (length ds)) then
               (SysExit 1, logger ERROR (RowIndexOutOfRange (row_index a) (length ds)) st1)
             else
               and_then (getitem ds (row_index a) st1)
                 (\<lambda>row st2. (Ok row, logger INFO (UsingRow (row_index a)) st2))))"

text \<open>
  Lines 201--206: the map path of the row, made absolute against the project
  directory and resolved.
\<close>

definition resolve_map_path :: "world \<Rightarrow> path \<Rightarrow> string \<Rightarrow> path option" where
  "resolve_map_path w project_dir raw =
     (let map_rel_path = Path raw in
      if is_absolute map_rel_path then realpath w map_rel_path
      else realpath w (join project_dir map_rel_path))"

text \<open>
  Lines 188--215. \<open>row[map_field]\<close> raises \<open>KeyError\<close> for a key the row does not
  have.
\<close>

definition rc_locate_map ::
  "world \<Rightarrow> args \<Rightarrow> cs_object \<Rightarrow> row \<Rightarrow> state \<Rightarrow> (path \<times> path) res \<times> state" where
  "rc_locate_map w a proj row st =
     (case choose_map_field row (map_field a) of
        Inl e \<Rightarrow> (SysExit 1, logger ERROR (ChooseFieldFailed e) st)
      | Inr field \<Rightarrow>
          (case map_of row field of
             None \<Rightarrow> (Raised OtherError, st)
           | Some map_rel_path \<Rightarrow>
               (let st1 = logger INFO (ChoseField field map_rel_path) st;
                    project_dir = safe_dir proj
                in case resolve_map_path w project_dir map_rel_path of
                     None \<Rightarrow> (SysExit 1, logger ERROR ResolveFailed st1)
                   | Some map_path \<Rightarrow>
                       if map_path \<notin> files st1 then
                         (SysExit 1, logger ERROR (MapNotFound map_path) st1)
                       else (Ok (project_dir, map_path), logger INFO (ResolvedMap map_path) st1))))"

text \<open>Lines 218--221: the working directory.\<close>

definition rc_work_dir :: "string option \<Rightarrow> path \<Rightarrow> string \<Rightarrow> string \<Rightarrow> path" where
  "rc_work_dir override project_dir puid juid =
     (if truthy override then Path (the override)
      else joinpath project_dir (''cryoatom_'' @ puid @ ''_'' @ juid))"

text \<open>Line 244: the output directory; line 272: the model file the tool is expected to write.\<close>

definition rc_out_dir :: "path \<Rightarrow> path" where
  "rc_out_dir work_dir = joinpath work_dir ''out''"

definition rc_out_cif :: "path \<Rightarrow> path" where
  "rc_out_cif outd = joinpath outd ''out.cif''"

text \<open>
  Lines 217--246: the working directory and the staged inputs. The result is
  \<open>(work_dir, fasta_in, map_in, out_dir)\<close>.
\<close>

definition rc_prepare ::
  "world \<Rightarrow> args \<Rightarrow> cs_object \<Rightarrow> cs_object \<Rightarrow> path \<Rightarrow> path \<Rightarrow> state
     \<Rightarrow> (path \<times> path \<times> path \<times> path) res \<times> state" where
  "rc_prepare w a proj jb project_dir map_path st =
     (let work_dir = rc_work_dir (out_dir a) project_dir (uid proj) (uid jb) in
      and_then (mkdir w work_dir st) (\<lambda>_ st1.
        let st2 = logger INFO (WorkDir work_dir) st1;
            fasta_path = Path (fasta a)
        in if fasta_path \<notin> files st2 then
             (SysExit 1, logger ERROR (FastaNotFound fasta_path) st2)
           else
             (let fasta_in = joinpath work_dir ''input.fasta'' in
              and_then (copy2 w fasta_path fasta_in st2) (\<lambda>_ st3.
              and_then
                (let st4 = logger INFO (CopiedFasta fasta_in) st3 in
                 if no_copy_map a then (Ok map_path, logger INFO (NotCopyingMap map_path) st4)
                 else
                   (let map_in = joinpath work_dir ''input_map.mrc'' in
                    and_then (copy2 w map_path map_in st4)
                      (\<lambda>_ st5. (Ok map_in, logger INFO (CopiedMap map_in) st5))))
                (\<lambda>map_in st6.
                   let outd = rc_out_dir work_dir in
                   and_then (mkdir w outd st6)
                     (\<lambda>_ st7. (Ok (work_dir, fasta_in, map_in, outd),
                                 logger INFO (OutputDir outd) st7)))))))"

text \<open>
  Lines 248--287: the command, the run with \<open>check=True\<close> and the summary of the
  outputs.
\<close>

definition rc_invoke ::
  "world \<Rightarrow> args \<Rightarrow> path \<Rightarrow> path \<Rightarrow> path \<Rightarrow> path \<Rightarrow> state \<Rightarrow> unit res \<times> state" where
  "rc_invoke w a work_dir fasta_in map_in outd st =
     (let cmd = \<lparr> seq_arg = str fasta_in, vol_arg = str map_in, out_arg = str outd,
                   dev_arg = gpu a, cwd = str work_dir \<rparr>;
          st1 = emit (RunTool cmd) (logger INFO (WillRun cmd) st)
      in case cryoatom w cmd (files st1) of
           None \<Rightarrow> (Raised OtherError, st1)
         | Some (rc, fs) \<Rightarrow>
             (let st2 = st1\<lparr>files := fs\<rparr> in
              if rc \<noteq> 0 then (Raised (CalledProcessError rc), st2)
              else
                (let cif = rc_out_cif outd;
                     cif_raw = joinpath outd ''out_raw.cif''
                 in (Ok (), logger INFO (Summary cif (cif \<in> fs) cif_raw (cif_raw \<in> fs)) st2))))"

definition run_cryoatom_main :: "world \<Rightarrow> args \<Rightarrow> state \<Rightarrow> unit res \<times> state" where
  "run_cryoatom_main w a st =
     and_then (rc_connect w a st) (\<lambda>(cs, proj, jb) st1.
     and_then (rc_select_row cs a jb st1) (\<lambda>row st2.
     and_then (rc_locate_map w a proj row st2) (\<lambda>(project_dir, map_path) st3.
     and_then (rc_prepare w a proj jb project_dir map_path st3)
       (\<lambda>(work_dir, fasta_in, map_in, outd) st4.
          rc_invoke w a work_dir fasta_in map_in outd st4))))"

text \<open>
  The process \<open>python run_cryoatom.py\<close>: the module-level reading of the environment
  (an exception there is not caught and ends the process with status 1), then lines
  290--304. The result is the exit status and the final state.
\<close>

definition run_cryoatom :: "world \<Rightarrow> args \<Rightarrow> state \<Rightarrow> int \<times> state" where
  "run_cryoatom w a st =
     (if \<not> credentials w then (1, st)
      else
        (case run_cryoatom_main w a st of
           (Ok _, st1) \<Rightarrow> (0, st1)
         | (SysExit c, st1) \<Rightarrow> (exit_status c, st1)
         | (Raised (CalledProcessError rc), st1) \<Rightarrow>
             (exit_status rc, logger ERROR (ToolFailed rc) st1)
         | (Raised OtherError, st1) \<Rightarrow> (exit_status 1, logger ERROR Unhandled st1)))"

section \<open>run\_cryoatom\_auto.py: main\<close>

text \<open>
  Lines 197--219: the command line for \<open>run_cryoatom.py\<close>, as the arguments it
  parses to.
\<close>

definition rc_args :: "args \<Rightarrow> int \<Rightarrow> args" where
  "rc_args a g =
     \<lparr> project = project a, job = job a, workspace = [], fasta = fasta a,
       volume_output = volume_output a,
       map_field = (if truthy (map_field a) then map_field a else None),
       row_index = row_index a,
       out_dir = (if truthy (out_dir a) then out_dir a else None),
       no_copy_map = no_copy_map a, gpu = Some g \<rparr>"

text \<open>Lines 247--251.\<close>

definition auto_work_dir :: "string option \<Rightarrow> path \<Rightarrow> string \<Rightarrow> string \<Rightarrow> path" where
  "auto_work_dir override project_dir puid juid =
     (if truthy override then Path (the override)
      else joinpath project_dir (''cryoatom_'' @ puid @ ''_'' @ juid))"

text \<open>Lines 253--254.\<close>

definition auto_out_cif :: "path \<Rightarrow> path" where
  "auto_out_cif work_dir = joinpath (joinpath work_dir ''out'') ''out.cif''"

text \<open>
  Lines 262--286: the copy into the job directory and the line in the job's log. Only the
  call of \<open>job.log\<close> stands in a \<open>try\<close>.
\<close>

definition auto_publish ::
  "world \<Rightarrow> session \<Rightarrow> cs_object \<Rightarrow> cs_object \<Rightarrow> int \<Rightarrow> path \<Rightarrow> state \<Rightarrow> unit res \<times> state" where
  "auto_publish w cs proj jb g out_cif st =
     (let job_dir = safe_dir jb;
          target_dir = joinpath job_dir ''cryoatom''
      in and_then (mkdir w target_dir st) (\<lambda>_ st1.
           let dest_file = joinpath target_dir (uid proj @ ''_'' @ uid jb @ ''_cryoatom.cif'') in
           and_then (copy2 w out_cif dest_file st1) (\<lambda>_ st2.
             let st3 = logger INFO (CopiedBack dest_file) st2;
                 st4 = (if job_log_ok cs jb then
                          logger INFO JobLogWritten (emit (JobLog (uid jb) g dest_file) st3)
                        else logger WARNING JobLogFailed st3)
             in (Ok (), logger INFO (AllDone dest_file) st4))))"

text \<open>Lines 184--189: the GPU, chosen or given.\<close>

definition auto_select_gpu ::
  "('f::{linorder,one}) builtins \<Rightarrow> world \<Rightarrow> args \<Rightarrow> state \<Rightarrow> int \<times> state" where
  "auto_select_gpu lib w a st =
     (case gpu a of
        None \<Rightarrow>
          (case pick_free_gpu lib (cuda_visible_devices w) (nvidia_smi w) of
             (g, lg) \<Rightarrow> (g, st\<lparr>events := events st @ map (\<lambda>(l, m). Log l (Gpu m)) lg\<rparr>))
      | Some g \<Rightarrow> (g, logger INFO (UserGpu g) st))"

text \<open>Lines 229--260: after the subprocess has succeeded.\<close>

definition auto_register :: "world \<Rightarrow> args \<Rightarrow> int \<Rightarrow> state \<Rightarrow> unit res \<times> state" where
  "auto_register w a g st =
     (case login w RunCryoatomAuto of
        None \<Rightarrow> (SysExit 1, logger ERROR ConnectFailed st)
      | Some cs \<Rightarrow>
          (case find_project cs (project a) of
             None \<Rightarrow> (SysExit 1, logger ERROR (ProjectNotFound (project a)) st)
           | Some proj \<Rightarrow>
               (case find_job cs (project a) (job a) of
                  None \<Rightarrow> (SysExit 1, logger ERROR (JobNotFound (project a) (job a)) st)
                | Some jb \<Rightarrow>
                    (let work_dir = auto_work_dir (out_dir a) (safe_dir proj) (uid proj) (uid jb);
                         out_cif = auto_out_cif work_dir
                     in if out_cif \<notin> files st then
                          (SysExit 1, logger ERROR (OutCifNotFound out_cif) st)
                        else
                          auto_publish w cs proj jb g out_cif
                            (logger INFO (FoundOutCif out_cif) st)))))"

definition run_cryoatom_auto_main ::
  "('f::{linorder,one}) builtins \<Rightarrow> world \<Rightarrow> args \<Rightarrow> state \<Rightarrow> unit res \<times> state" where
  "run_cryoatom_auto_main lib w a st =
     (case auto_select_gpu lib w a st of (g, st1) \<Rightarrow>
        (let rc_script = joinpath (script_dir w) ''run_cryoatom.py'' in
         if rc_script \<notin> files st1 then
           (SysExit 1, logger ERROR (ScriptNotFound rc_script) st1)
         else
           (case run_cryoatom w (rc_args a g) (logger INFO (Calling (rc_args a g)) st1) of
              (returncode, st2) \<Rightarrow>
                if returncode \<noteq> 0 then
                  (SysExit returncode, logger ERROR (SubprocessFailed returncode) st2)
                else auto_register w a g st2)))"

text \<open>
  The process \<open>python run_cryoatom_auto.py\<close>: \<open>main()\<close> is called without a
  \<open>try\<close>, so an exception ends the process with status 1.
\<close>

definition run_cryoatom_auto ::
  "('f::{linorder,one}) builtins \<Rightarrow> world \<Rightarrow> args \<Rightarrow> state \<Rightarrow> int \<times> state" where
  "run_cryoatom_auto lib w a st =
     (if \<not> credentials w then (1, st)
      else
        (case run_cryoatom_auto_main lib w a st of
           (Ok _, st1) \<Rightarrow> (0, st1)
         | (SysExit c, st1) \<Rightarrow> (exit_status c, st1)
         | (Raised _, st1) \<Rightarrow> (1, st1)))"

section \<open>cryoatom\_external\_job.py: main\<close>

text \<open>
  Lines 190--211: the command line for \<open>run_cryoatom_auto.py\<close>, as the arguments it
  parses to.
\<close>

definition auto_args :: "args \<Rightarrow> args" where
  "auto_args a =
     \<lparr> project = project a, job = job a, workspace = [], fasta = fasta a,
       volume_output = volume_output a,
       map_field = (if truthy (map_field a) then map_field a else None),
       row_index = row_index a,
       out_dir = (if truthy (out_dir a) then out_dir a else None),
       no_copy_map = no_copy_map a, gpu = gpu a \<rparr>"

text \<open>Lines 258--262.\<close>

definition ext_work_dir :: "string option \<Rightarrow> path \<Rightarrow> string \<Rightarrow> string \<Rightarrow> path" where
  "ext_work_dir override project_dir puid juid =
     (if truthy override then Path (the override)
      else joinpath project_dir (''cryoatom_'' @ puid @ ''_'' @ juid))"

text \<open>Lines 264--265.\<close>

definition ext_out_cif :: "path \<Rightarrow> path" where
  "ext_out_cif work_dir = joinpath (joinpath work_dir ''out'') ''out.cif''"

text \<open>Lines 268--270: where \<open>run_cryoatom_auto.py\<close> has copied the model.\<close>

definition ext_dest_file :: "cs_object \<Rightarrow> cs_object \<Rightarrow> path" where
  "ext_dest_file proj src_job =
     joinpath (joinpath (safe_dir src_job) ''cryoatom'')
       (uid proj @ ''_'' @ uid src_job @ ''_cryoatom.cif'')"

text \<open>
  Lines 257--315, after the subprocess has succeeded. The result is the model path, or
  \<open>None\<close> when the function returns early because no model file exists. The message
  of that branch starts with \<open>[WARN]\<close> and is written with \<open>level="info"\<close>.
\<close>

definition ext_resolve :: "args \<Rightarrow> cs_object \<Rightarrow> cs_object \<Rightarrow> state \<Rightarrow> path option res \<times> state" where
  "ext_resolve a proj src_job st =
     (let work_dir = ext_work_dir (out_dir a) (safe_dir proj) (uid proj) (uid src_job);
          out_cif = ext_out_cif work_dir;
          dest_file = ext_dest_file proj src_job
      in if dest_file \<in> files st then
           (Ok (Some dest_file),
            emit (EjLog EjComplete) (emit (EjLog (EjMounted dest_file))
              (emit (EjLog (EjUsingCopy dest_file)) st)))
         else if out_cif \<in> files st then
           (Ok (Some out_cif),
            emit (EjLog EjComplete) (emit (EjLog (EjMounted out_cif))
              (emit (EjLog (EjUsingWorkDir out_cif)) st)))
         else
           (Ok None,
            emit (EjLog EjEndNoOutput) (emit (EjLog (EjWarnNoModel dest_file out_cif)) st)))"

text \<open>
  Lines 220--315, the body of \<open>with ej.run()\<close>. The log of the external job either
  works throughout or raises at its first call. The captured output of the subprocess
  is forwarded line by line; the model records one event for it.
\<close>

definition ext_body ::
  "('f::{linorder,one}) builtins \<Rightarrow> world \<Rightarrow> session \<Rightarrow> args \<Rightarrow> cs_object \<Rightarrow> cs_object
     \<Rightarrow> state \<Rightarrow> path option res \<times> state" where
  "ext_body lib w cs a proj src_job st =
     (if \<not> ej_log_ok cs then (Raised OtherError, st)
      else
        (let st1 = emit (EjLog (EjCommand (auto_args a))) (emit (EjLog (EjStart (job a))) st) in
         case run_cryoatom_auto lib w (auto_args a) st1 of
           (returncode, st2) \<Rightarrow>
             if returncode \<noteq> 0 then
               (Raised (CalledProcessError returncode),
                emit (EjLog (EjForwarded ERROR)) (emit (EjLog (EjSubprocessFailed returncode)) st2))
             else
               ext_resolve a proj src_job
                 (emit (EjLog EjSubprocessOk) (emit (EjLog (EjForwarded INFO)) st2))))"

definition cryoatom_external_job_main ::
  "('f::{linorder,one}) builtins \<Rightarrow> world \<Rightarrow> args \<Rightarrow> state \<Rightarrow> unit res \<times> state" where
  "cryoatom_external_job_main lib w a st =
     (let st1 = logger INFO Connecting st in
      case login w ExternalJob of
        None \<Rightarrow> (SysExit 1, logger ERROR ConnectFailed st1)
      | Some cs \<Rightarrow>
      (case find_project cs (project a) of
        None \<Rightarrow> (SysExit 1, logger ERROR (ProjectNotFound (project a)) st1)
      | Some proj \<Rightarrow>
      (case find_job cs (project a) (job a) of
        None \<Rightarrow>
          (SysExit 1,
           logger ERROR (JobNotFound (project a) (job a)) (logger INFO (FoundProject (uid proj)) st1))
      | Some src_job \<Rightarrow>
      (let st2 = logger INFO (UsingWorkspace (workspace a))
                   (logger INFO (SourceJob (uid src_job))
                      (logger INFO (FoundProject (uid proj)) st1))
       in case create_external_job cs proj (workspace a) of
            None \<Rightarrow> (SysExit 1, logger ERROR CreateExternalJobFailed st2)
          | Some ej \<Rightarrow>
      (let st3 = logger INFO (CreatedExternalJob ej) (emit (CreateExternalJob ej) st2);
           rc_auto = joinpath (script_dir w) ''run_cryoatom_auto.py''
       in if rc_auto \<notin> files st3 then
            (SysExit 1, logger ERROR (ScriptNotFound rc_auto) st3)
          else
            (case ext_body lib w cs a proj src_job (logger INFO (WillExecute (auto_args a)) st3) of
               (Raised e, st4) \<Rightarrow> (SysExit 1, logger ERROR ExternalJobFailed st4)
             | (SysExit c, st4) \<Rightarrow> (SysExit c, st4)
             | (Ok None, st4) \<Rightarrow> (Ok (), st4)
             | (Ok (Some model_path), st4) \<Rightarrow>
                 (Ok (), logger INFO (ExternalJobDone ej) st4)))))))"

text \<open>The process \<open>python cryoatom_external_job.py\<close>.\<close>

definition cryoatom_external_job ::
  "('f::{linorder,one}) builtins \<Rightarrow> world \<Rightarrow> args \<Rightarrow> state \<Rightarrow> int \<times> state" where
  "cryoatom_external_job lib w a st =
     (if \<not> credentials w then (1, st)
      else
        (case cryoatom_external_job_main lib w a st of
           (Ok _, st1) \<Rightarrow> (0, st1)
         | (SysExit c, st1) \<Rightarrow> (exit_status c, st1)
         | (Raised _, st1) \<Rightarrow> (1, st1)))"

section \<open>Notions used in the statements\<close>

text \<open>
  The score of a parsed line, by its components: the memory ratio and the utilisation.
\<close>

definition mem_ratio ::
  "('f::{linorder,one}) builtins \<Rightarrow> int \<times> 'f pyfloat \<times> 'f pyfloat \<times> 'f pyfloat \<Rightarrow> 'f pyfloat" where
  "mem_ratio lib g =
     (case g of (idx, mem_used, mem_total, util) \<Rightarrow>
        py_truediv lib mem_used (float_max mem_total (Num 1)))"




definition permitted :: "int set option \<Rightarrow> int \<Rightarrow> bool" where
  "permitted allowed idx = (case allowed of None \<Rightarrow> True | Some A \<Rightarrow> idx \<in> A)"

text \<open>
  The candidates of a listing: its well-formed lines, in order, that the allow-list
  permits.
\<close>

definition candidates ::
  "'f builtins \<Rightarrow> int set option \<Rightarrow> string list
     \<Rightarrow> (int \<times> 'f pyfloat \<times> 'f pyfloat \<times> 'f pyfloat) list" where
  "candidates lib allowed ls =
     filter (\<lambda>g. permitted allowed (fst g)) (List.map_filter (parse_line lib) ls)"


text \<open>The events a run has added to a state.\<close>

definition new_events :: "state \<Rightarrow> state \<Rightarrow> event list" where
  "new_events st st' = drop (length (events st)) (events st')"

text \<open>
  An event is harmless for indexing when it is not a read of a dataset, or reads a row
  the dataset has.
\<close>

definition index_ok :: "event \<Rightarrow> bool" where
  "index_ok e = (case e of Index n r \<Rightarrow> 0 \<le> r \<and> r < int n | _ \<Rightarrow> True)"

definition is_log :: "event \<Rightarrow> bool" where
  "is_log e = (case e of Log l m \<Rightarrow> True | _ \<Rightarrow> False)"

text \<open>\<open>adds Q st st'\<close>: the state \<open>st'\<close> extends the events of \<open>st\<close> by events that satisfy \<open>Q\<close>.\<close>

definition adds :: "(event \<Rightarrow> bool) \<Rightarrow> state \<Rightarrow> state \<Rightarrow> bool" where
  "adds Q st st' \<longleftrightarrow> (\<exists>xs. events st' = events st @ xs \<and> list_all Q xs)"

text \<open>
  Where \<open>run_cryoatom_auto.py\<close> publishes the model: the directory \<open>cryoatom\<close> in
  the job directory and the file \<open><project uid>_<job uid>_cryoatom.cif\<close> in it.
\<close>

definition publish_dir :: "cs_object \<Rightarrow> path" where
  "publish_dir jb = joinpath (safe_dir jb) ''cryoatom''"

definition publish_file :: "cs_object \<Rightarrow> cs_object \<Rightarrow> path" where
  "publish_file proj jb = joinpath (publish_dir jb) (uid proj @ ''_'' @ uid jb @ ''_cryoatom.cif'')"

text \<open>
  \<open>run_cryoatom_auto.py\<close>, started in state \<open>st\<close> with arguments \<open>a\<close>, has got
  GPU \<open>g\<close>, its subprocess \<open>run_cryoatom.py\<close> has ended with status 0 and left the
  state \<open>st2\<close>, and the session \<open>cs\<close> has given the project and the job.
\<close>

definition registration_reached ::
  "('f::{linorder,one}) builtins \<Rightarrow> world \<Rightarrow> args \<Rightarrow> state \<Rightarrow> int
     \<Rightarrow> session \<Rightarrow> cs_object \<Rightarrow> cs_object \<Rightarrow> state \<Rightarrow> bool" where
  "registration_reached lib w a st g cs proj jb st2 \<longleftrightarrow>
     credentials w
     \<and> (\<exists>st1. auto_select_gpu lib w a st = (g, st1)
            \<and> joinpath (script_dir w) ''run_cryoatom.py'' \<in> files st1
            \<and> run_cryoatom w (rc_args a g) (logger INFO (Calling (rc_args a g)) st1) = (0, st2))
     \<and> login w RunCryoatomAuto = Some cs
     \<and> find_project cs (project a) = Some proj
     \<and> find_job cs (project a) (job a) = Some jb"

text \<open>
  \<open>cryoatom_external_job.py\<close>, started in state \<open>st\<close> with arguments \<open>a\<close>, has
  created the external job \<open>ej\<close> for project and source job, and its subprocess
  \<open>run_cryoatom_auto.py\<close> has ended with status 0 and left the state \<open>st2\<close>.
\<close>

definition resolution_reached ::
  "('f::{linorder,one}) builtins \<Rightarrow> world \<Rightarrow> args \<Rightarrow> state
     \<Rightarrow> session \<Rightarrow> cs_object \<Rightarrow> cs_object \<Rightarrow> string \<Rightarrow> state \<Rightarrow> bool" where
  "resolution_reached lib w a st cs proj src_job ej st2 \<longleftrightarrow>
     credentials w
     \<and> login w ExternalJob = Some cs
     \<and> find_project cs (project a) = Some proj
     \<and> find_job cs (project a) (job a) = Some src_job
     \<and> create_external_job cs proj (workspace a) = Some ej
     \<and> joinpath (script_dir w) ''run_cryoatom_auto.py'' \<in> files st
     \<and> ej_log_ok cs
     \<and> run_cryoatom_auto lib w (auto_args a)
          (emit (EjLog (EjCommand (auto_args a))) (emit (EjLog (EjStart (job a)))
            (logger INFO (WillExecute (auto_args a))
              (logger INFO (CreatedExternalJob ej) (emit (CreateExternalJob ej)
                (logger INFO (UsingWorkspace (workspace a))
                  (logger INFO (SourceJob (uid src_job))
                    (logger INFO (FoundProject (uid proj))
                      (logger INFO Connecting st)))))))))
         = (0, st2)"

subsection \<open>A concrete environment\<close>

text \<open>
  An instance of the builtins for evaluating the model on concrete inputs: it reads
  plain decimal numerals, and \<open>nan\<close> as a float; the numbers are the rationals.
\<close>

definition digit_of :: "char \<Rightarrow> nat option" where
  "digit_of c = (let n = of_char c :: nat in if 48 \<le> n \<and> n \<le> 57 then Some (n - 48) else None)"

fun dec_digits :: "nat \<Rightarrow> string \<Rightarrow> nat option" where
  "dec_digits acc [] = Some acc"
| "dec_digits acc (c # cs) =
     (case digit_of c of None \<Rightarrow> None | Some d \<Rightarrow> dec_digits (10 * acc + d) cs)"

definition dec_nat :: "string \<Rightarrow> nat option" where
  "dec_nat s = (if s = [] then None else dec_digits 0 s)"

definition demo_lib :: "rat builtins" where
  "demo_lib = \<lparr> py_int = (\<lambda>s. map_option int (dec_nat s)),
                 py_float = (\<lambda>s. if s = ''nan'' then Some NaN
                                  else map_option (\<lambda>n. Num (of_nat n)) (dec_nat s)),
                 py_isdigit = (\<lambda>s. dec_nat s \<noteq> None),
                 py_truediv = (\<lambda>x y. case x of
                                        NaN \<Rightarrow> NaN
                                      | Num a \<Rightarrow> (case y of NaN \<Rightarrow> NaN | Num b \<Rightarrow> Num (a / b))) \<rparr>"

text \<open>
  A listing of four devices and one line that does not parse. Devices 1, 2 and 3 have
  the same memory ratio; 2 and 3 have the same utilisation, below that of 1.
\<close>

definition demo_listing :: "string list" where
  "demo_listing =
     [''0, 1024, 8192, 5'', ''N/A'', ''1, 512, 8192, 90'', ''2, 512, 8192, 10'', ''3, 512, 8192, 10'']"



text \<open>
  A project \<open>P1\<close> in \<open>/data/P1\<close> with a job \<open>J1\<close> whose output \<open>volume\<close> has one
  row; every operation of the operating system succeeds, and the tool writes
  \<open>out.cif\<close> into its output directory and returns 0.
\<close>

definition demo_session :: session where
  "demo_session =
     \<lparr> find_project = (\<lambda>p. if p = ''P1'' then Some \<lparr>uid = ''P1'', dir = ''/data/P1''\<rparr> else None),
       find_job = (\<lambda>p j. if p = ''P1'' \<and> j = ''J1''
                          then Some \<lparr>uid = ''J1'', dir = ''/data/P1/J1''\<rparr> else None),
       load_output = (\<lambda>jb name. if name = ''volume''
                          then Some [[(''other/path'', ''J1/other.mrc''),
                                      (''map_sharp/path'', ''J1/map.mrc'')]]
                          else None),
       job_log_ok = (\<lambda>jb. True),
       create_external_job = (\<lambda>proj ws. Some ''J2''),
       ej_log_ok = True \<rparr>"

definition demo_world :: world where
  "demo_world =
     \<lparr> credentials = True,
       login = (\<lambda>s. Some demo_session),
       realpath = (\<lambda>p. Some p),
       mkdir_ok = (\<lambda>p. True),
       copy_ok = (\<lambda>src dst. True),
       cryoatom = (\<lambda>c fs. Some (0, insert (joinpath (Path (out_arg c)) ''out.cif'') fs)),
       script_dir = Path ''/opt'',
       cuda_visible_devices = None,
       nvidia_smi = Some demo_listing \<rparr>"

definition demo_args :: args where
  "demo_args =
     \<lparr> project = ''P1'', job = ''J1'', workspace = ''W1'', fasta = ''/data/s.fa'',
       volume_output = ''volume'', map_field = None, row_index = 0, out_dir = None,
       no_copy_map = False, gpu = None \<rparr>"

definition demo_state :: state where
  "demo_state =
     \<lparr> files = {Path ''/data/P1/J1/map.mrc'', Path ''/data/s.fa'',
                Path ''/opt/run_cryoatom.py'', Path ''/opt/run_cryoatom_auto.py''},
       events = [] \<rparr>"

text \<open>
  A second environment: the tool returns 0 and writes nothing.
\<close>

definition silent_world :: world where
  "silent_world = demo_world\<lparr>cryoatom := (\<lambda>c fs. Some (0, fs))\<rparr>"

text \<open>
  A third environment: as the first, but the session of \<open>cryoatom_external_job.py\<close>
  reports project and job under another mount point.
\<close>

definition remount_world :: world where
  "remount_world =
     demo_world\<lparr>login := (\<lambda>s.
        if s = ExternalJob then
          Some (demo_session
            \<lparr>find_project := (\<lambda>p. Some \<lparr>uid = ''P1'', dir = ''/mnt/P1''\<rparr>),
             find_job := (\<lambda>p j. Some \<lparr>uid = ''J1'', dir = ''/mnt/P1/J1''\<rparr>)\<rparr>)
        else Some demo_session)\<rparr>"

section \<open>Accelerator selection\<close>

lemma scan_lines_foldl:
  "scan_lines lib allowed ls st =
     foldl (consider_gpu lib allowed) st (List.map_filter (parse_line lib) ls)"
  by (induction ls arbitrary: st) (simp_all split: option.split)

lemma consider_gpu_skip:
  "\<not> permitted allowed (fst g) \<Longrightarrow> consider_gpu lib allowed st g = st"
  by (cases g) (auto simp: consider_gpu_def permitted_def split: option.splits)

lemma foldl_consider_filter:
  "foldl (consider_gpu lib allowed) st gs =
     foldl (consider_gpu lib allowed) st (filter (\<lambda>g. permitted allowed (fst g)) gs)"
  by (induction gs arbitrary: st) (simp_all add: consider_gpu_skip)

lemma scan_lines_candidates:
  "scan_lines lib allowed ls st = foldl (consider_gpu lib allowed) st (candidates lib allowed ls)"
  unfolding candidates_def scan_lines_foldl by (rule foldl_consider_filter)







lemma demo_parse:
  "parse_line demo_lib ''0, 1024, 8192, 5'' = Some (0, Num 1024, Num 8192, Num 5)"
  "parse_line demo_lib ''N/A'' = None"
  "parse_line demo_lib ''1, 512, 8192, 90'' = Some (1, Num 512, Num 8192, Num 90)"
  "parse_line demo_lib ''2, 512, 8192, 10'' = Some (2, Num 512, Num 8192, Num 10)"
  "parse_line demo_lib ''3, 512, 8192, 10'' = Some (3, Num 512, Num 8192, Num 10)"
  "parse_line demo_lib ''0, nan, 8192, 5'' = Some (0, NaN, Num 8192, Num 5)"
  "parse_line demo_lib ''0, 512, 8192, nan'' = Some (0, Num 512, Num 8192, NaN)"
  "parse_line demo_lib ''1, 512, 8192, 10'' = Some (1, Num 512, Num 8192, Num 10)"
  by (simp_all add: parse_line_def demo_lib_def dec_nat_def digit_of_def strip_def isspace_def
        Let_def)


lemma demo_allowed_none: "allowed_of demo_lib None = (None, [])"
  by (simp add: allowed_of_def)

lemma demo_allowed_7: "allowed_of demo_lib (Some ''7'') = (Some {7}, [])"
  by (simp add: allowed_of_def demo_lib_def dec_nat_def digit_of_def strip_def isspace_def)

lemma demo_truediv:
  "py_truediv demo_lib (Num a) (Num b) = Num (a / b)"
  "py_truediv demo_lib NaN y = NaN"
  by (simp_all add: demo_lib_def)

lemma demo_pick: "pick_free_gpu demo_lib None (Some demo_listing) = (2, [(INFO, GpuSelected 2)])"
  by (simp add: pick_free_gpu_def demo_allowed_none demo_listing_def demo_parse
        consider_gpu_def float_max_def demo_truediv Let_def)




text \<open>
  C5. When the telemetry query fails, when no line of its output is well-formed, or when
  the allow-list leaves no candidate, \<open>pick_free_gpu\<close> returns 0, and what it logs is
  one or two records, all of them warnings. The function is total: the exceptions of
  the builtins and of the query are caught inside it.
\<close>

theorem pick_free_gpu_fallback:
  assumes "tel = None
     \<or> (\<exists>ls. tel = Some ls \<and> (\<forall>l \<in> set ls. parse_line lib l = None))
     \<or> (\<exists>ls. tel = Some ls \<and> candidates lib (fst (allowed_of lib visible)) ls = [])"
  shows "fst (pick_free_gpu lib visible tel) = 0
     \<and> snd (pick_free_gpu lib visible tel) \<noteq> []
     \<and> (\<forall>e \<in> set (snd (pick_free_gpu lib visible tel)). fst e = WARNING)"
proof -
  obtain al lg where ao: "allowed_of lib visible = (al, lg)"
    by (cases "allowed_of lib visible")
  have lg: "\<forall>e \<in> set lg. fst e = WARNING"
    using ao by (auto simp: allowed_of_def split: if_splits option.splits)
  have unparsed: "candidates lib al ls = []" if "\<forall>l \<in> set ls. parse_line lib l = None" for ls
    using that by (induction ls) (simp_all add: candidates_def)
  from assms consider "tel = None" | ls where "tel = Some ls" "candidates lib al ls = []"
    using ao unparsed by auto
  then show ?thesis
  proof cases
    case 1
    then show ?thesis using ao lg by (simp add: pick_free_gpu_def)
  next
    case 2
    then show ?thesis using ao lg
      by (simp add: pick_free_gpu_def scan_lines_candidates)
  qed
qed

theorem pick_free_gpu_fallback_witness:
  "pick_free_gpu demo_lib None None = (0, [(WARNING, NvidiaSmiFailed)])
   \<and> pick_free_gpu demo_lib None (Some [''N/A'', ''no devices'']) = (0, [(WARNING, NoValidGpu)])
   \<and> candidates demo_lib (fst (allowed_of demo_lib (Some ''7''))) demo_listing = []
   \<and> fst (pick_free_gpu demo_lib (Some ''7'') (Some demo_listing)) = 0
   \<and> snd (pick_free_gpu demo_lib (Some ''7'') (Some demo_listing)) \<noteq> []
   \<and> list_all (\<lambda>e. fst e = WARNING) (snd (pick_free_gpu demo_lib (Some ''7'') (Some demo_listing)))"
proof -
  have c: "candidates demo_lib (fst (allowed_of demo_lib (Some ''7''))) demo_listing = []"
    by (simp add: demo_allowed_7 candidates_def demo_listing_def permitted_def demo_parse)
  have a: "pick_free_gpu demo_lib None None = (0, [(WARNING, NvidiaSmiFailed)])"
    by (simp add: pick_free_gpu_def demo_allowed_none)
  have b: "pick_free_gpu demo_lib None (Some [''N/A'', ''no devices'']) = (0, [(WARNING, NoValidGpu)])"
    by (simp add: pick_free_gpu_def demo_allowed_none parse_line_def Let_def)
  have "Some demo_listing = None
     \<or> (\<exists>ls. Some demo_listing = Some ls \<and> (\<forall>l \<in> set ls. parse_line demo_lib l = None))
     \<or> (\<exists>ls. Some demo_listing = Some ls
           \<and> candidates demo_lib (fst (allowed_of demo_lib (Some ''7''))) ls = [])"
    using c by simp
  from pick_free_gpu_fallback [OF this] a b c show ?thesis
    by (simp add: list_all_iff)
qed

section \<open>The map field of a row\<close>

lemma first_present_index:
  "i < length ps \<Longrightarrow> ps ! i \<in> set keys \<Longrightarrow> \<forall>j < i. ps ! j \<notin> set keys
     \<Longrightarrow> first_present ps keys = Some (ps ! i)"
proof (induction ps arbitrary: i)
  case Nil
  then show ?case by simp
next
  case (Cons p ps)
  show ?case
  proof (cases i)
    case 0
    with Cons.prems show ?thesis by simp
  next
    case (Suc n)
    have "p \<notin> set keys" using Cons.prems(3) Suc by auto
    moreover have "first_present ps keys = Some (ps ! n)"
    proof (rule Cons.IH)
      show "n < length ps" using Cons.prems(1) Suc by simp
      show "ps ! n \<in> set keys" using Cons.prems(2) Suc by simp
      show "\<forall>j < n. ps ! j \<notin> set keys"
      proof (intro allI impI)
        fix j assume "j < n"
        then have "Suc j < i" using Suc by simp
        with Cons.prems(3) have "(p # ps) ! Suc j \<notin> set keys" by blast
        then show "ps ! j \<notin> set keys" by simp
      qed
    qed
    ultimately show ?thesis using Suc by simp
  qed
qed

lemma first_present_none:
  "\<forall>p \<in> set ps. p \<notin> set keys \<Longrightarrow> first_present ps keys = None"
  by (induction ps) simp_all

lemma first_path_key_index:
  "i < length ks \<Longrightarrow> endswith (ks ! i) ''/path'' \<Longrightarrow> \<forall>j < i. \<not> endswith (ks ! j) ''/path''
     \<Longrightarrow> first_path_key ks = Some (ks ! i)"
proof (induction ks arbitrary: i)
  case Nil
  then show ?case by simp
next
  case (Cons k ks)
  show ?case
  proof (cases i)
    case 0
    with Cons.prems show ?thesis by simp
  next
    case (Suc n)
    have "\<not> endswith k ''/path''" using Cons.prems(3) Suc by auto
    moreover have "first_path_key ks = Some (ks ! n)"
    proof (rule Cons.IH)
      show "n < length ks" using Cons.prems(1) Suc by simp
      show "endswith (ks ! n) ''/path''" using Cons.prems(2) Suc by simp
      show "\<forall>j < n. \<not> endswith (ks ! j) ''/path''"
      proof (intro allI impI)
        fix j assume "j < n"
        then have "Suc j < i" using Suc by simp
        with Cons.prems(3) have "\<not> endswith ((k # ks) ! Suc j) ''/path''" by blast
        then show "\<not> endswith (ks ! j) ''/path''" by simp
      qed
    qed
    ultimately show ?thesis using Suc by simp
  qed
qed

lemma first_path_key_none:
  "\<forall>k \<in> set ks. \<not> endswith k ''/path'' \<Longrightarrow> first_path_key ks = None"
  by (induction ks) simp_all

text \<open>
  C4. With an explicit field name (a non-empty string, as \<open>if explicit:\<close> tests it),
  \<open>choose_map_field\<close> returns the name when it is a key of the row and otherwise fails
  with an error that carries the keys. Without one, it returns the first name of the
  list \<open>map_sharp/path\<close>, \<open>map/path\<close>, \<open>map_half_A/path\<close>, \<open>map_half_B/path\<close> that
  is a key; if none is, the first key, in the order of the row, that ends with
  \<open>/path\<close>; if there is none, it fails. For the keys \<open>map_sharp/path\<close> and
  \<open>other/path\<close>, in either order, it returns \<open>map_sharp/path\<close>.
\<close>

theorem choose_map_field_spec:
  "(truthy explicit \<and> the explicit \<in> set (map fst row)
      \<longrightarrow> choose_map_field row explicit = Inr (the explicit))
   \<and> (truthy explicit \<and> the explicit \<notin> set (map fst row)
      \<longrightarrow> choose_map_field row explicit = Inl (FieldNotFound (the explicit) (map fst row)))
   \<and> (\<not> truthy explicit
      \<longrightarrow> (\<forall>i < length preferred.
             preferred ! i \<in> set (map fst row)
             \<and> (\<forall>j < i. preferred ! j \<notin> set (map fst row))
             \<longrightarrow> choose_map_field row explicit = Inr (preferred ! i)))
   \<and> (\<not> truthy explicit \<and> (\<forall>p \<in> set preferred. p \<notin> set (map fst row))
      \<longrightarrow> (\<forall>i < length row.
             endswith (map fst row ! i) ''/path''
             \<and> (\<forall>j < i. \<not> endswith (map fst row ! j) ''/path'')
             \<longrightarrow> choose_map_field row explicit = Inr (map fst row ! i)))
   \<and> (\<not> truthy explicit \<and> (\<forall>p \<in> set preferred. p \<notin> set (map fst row))
        \<and> (\<forall>k \<in> set (map fst row). \<not> endswith k ''/path'')
      \<longrightarrow> choose_map_field row explicit = Inl (NoPathFieldFound (map fst row)))
   \<and> preferred = [''map_sharp/path'', ''map/path'', ''map_half_A/path'', ''map_half_B/path'']
   \<and> choose_map_field [(''map_sharp/path'', v), (''other/path'', v')] None = Inr ''map_sharp/path''
   \<and> choose_map_field [(''other/path'', v'), (''map_sharp/path'', v)] None = Inr ''map_sharp/path''"
proof (intro conjI impI allI)
  assume "truthy explicit \<and> the explicit \<in> set (map fst row)"
  then show "choose_map_field row explicit = Inr (the explicit)"
    by (simp add: choose_map_field_def)
next
  assume "truthy explicit \<and> the explicit \<notin> set (map fst row)"
  then show "choose_map_field row explicit = Inl (FieldNotFound (the explicit) (map fst row))"
    by (simp add: choose_map_field_def)
next
  fix i
  assume e: "\<not> truthy explicit" and i: "i < length preferred"
    and p: "preferred ! i \<in> set (map fst row) \<and> (\<forall>j < i. preferred ! j \<notin> set (map fst row))"
  have "first_present preferred (map fst row) = Some (preferred ! i)"
    using i p by (intro first_present_index) blast+
  with e show "choose_map_field row explicit = Inr (preferred ! i)"
    by (simp add: choose_map_field_def)
next
  fix i
  assume e: "\<not> truthy explicit \<and> (\<forall>p \<in> set preferred. p \<notin> set (map fst row))"
    and i: "i < length row"
    and p: "endswith (map fst row ! i) ''/path''
              \<and> (\<forall>j < i. \<not> endswith (map fst row ! j) ''/path'')"
  have n: "first_present preferred (map fst row) = None"
    using e by (intro first_present_none) blast
  have "first_path_key (map fst row) = Some (map fst row ! i)"
    using i p by (intro first_path_key_index) simp_all
  with e n show "choose_map_field row explicit = Inr (map fst row ! i)"
    by (simp add: choose_map_field_def)
next
  assume e: "\<not> truthy explicit \<and> (\<forall>p \<in> set preferred. p \<notin> set (map fst row))
        \<and> (\<forall>k \<in> set (map fst row). \<not> endswith k ''/path'')"
  have n: "first_present preferred (map fst row) = None"
    using e by (intro first_present_none) blast
  have "first_path_key (map fst row) = None"
    using e by (intro first_path_key_none) blast
  with e n show "choose_map_field row explicit = Inl (NoPathFieldFound (map fst row))"
    by (simp add: choose_map_field_def)
next
  show "preferred = [''map_sharp/path'', ''map/path'', ''map_half_A/path'', ''map_half_B/path'']"
    by (simp add: preferred_def)
next
  show "choose_map_field [(''map_sharp/path'', v), (''other/path'', v')] None = Inr ''map_sharp/path''"
    by (simp add: choose_map_field_def preferred_def)
next
  show "choose_map_field [(''other/path'', v'), (''map_sharp/path'', v)] None = Inr ''map_sharp/path''"
    by (simp add: choose_map_field_def preferred_def)
qed

theorem choose_map_field_spec_witness:
  "choose_map_field [(''a/path'', ''1''), (''map/path'', ''2'')] (Some ''a/path'') = Inr ''a/path''
   \<and> choose_map_field [(''a/path'', ''1''), (''map/path'', ''2'')] (Some ''zzz'')
       = Inl (FieldNotFound ''zzz'' [''a/path'', ''map/path''])
   \<and> choose_map_field [(''a/path'', ''1''), (''map/path'', ''2'')] None = Inr ''map/path''
   \<and> choose_map_field [(''x'', ''1''), (''a/path'', ''2''), (''b/path'', ''3'')] (Some [])
       = Inr ''a/path''
   \<and> choose_map_field [(''x'', ''1'')] None = Inl (NoPathFieldFound [''x''])"
proof -
  let ?r = "[(''a/path'', ''1''), (''map/path'', ''2'')]"
  let ?s = "[(''x'', ''1''), (''a/path'', ''2''), (''b/path'', ''3'')]"
  have 1: "choose_map_field ?r (Some ''a/path'') = Inr ''a/path''"
    using choose_map_field_spec [of "Some ''a/path''" ?r] by simp
  have 2: "choose_map_field ?r (Some ''zzz'') = Inl (FieldNotFound ''zzz'' [''a/path'', ''map/path''])"
    using choose_map_field_spec [of "Some ''zzz''" ?r] by simp
  have "(\<forall>i < length preferred.
             preferred ! i \<in> set (map fst ?r)
             \<and> (\<forall>j < i. preferred ! j \<notin> set (map fst ?r))
             \<longrightarrow> choose_map_field ?r None = Inr (preferred ! i))"
    using choose_map_field_spec [of None ?r] by simp
  then have "1 < length preferred \<and> preferred ! 1 \<in> set (map fst ?r)
             \<and> (\<forall>j < 1. preferred ! j \<notin> set (map fst ?r))
             \<longrightarrow> choose_map_field ?r None = Inr (preferred ! 1)"
    by blast
  then have 3: "choose_map_field ?r None = Inr ''map/path''"
    by (simp add: preferred_def)
  have "\<not> truthy (Some []) \<and> (\<forall>p \<in> set preferred. p \<notin> set (map fst ?s))"
    by (simp add: preferred_def)
  then have "(\<forall>i < length ?s.
             endswith (map fst ?s ! i) ''/path''
             \<and> (\<forall>j < i. \<not> endswith (map fst ?s ! j) ''/path'')
             \<longrightarrow> choose_map_field ?s (Some []) = Inr (map fst ?s ! i))"
    using choose_map_field_spec [of "Some []" ?s] by blast
  then have "1 < length ?s \<and> endswith (map fst ?s ! 1) ''/path''
             \<and> (\<forall>j < 1. \<not> endswith (map fst ?s ! j) ''/path'')
             \<longrightarrow> choose_map_field ?s (Some []) = Inr (map fst ?s ! 1)"
    by blast
  then have 4: "choose_map_field ?s (Some []) = Inr ''a/path''"
    by (simp add: endswith_def)
  have 5: "choose_map_field [(''x'', ''1'')] None = Inl (NoPathFieldFound [''x''])"
    using choose_map_field_spec [of None "[(''x'', ''1'')]"]
    by (simp add: preferred_def endswith_def)
  from 1 2 3 4 5 show ?thesis by blast
qed

section \<open>Working directory and layout\<close>

lemma joinpath_name [simp]:
  "joinpath p ''out'' = PosixPath (anchor p) (parts p @ [''out''])"
  "joinpath p ''out.cif'' = PosixPath (anchor p) (parts p @ [''out.cif''])"
  "joinpath p ''out_raw.cif'' = PosixPath (anchor p) (parts p @ [''out_raw.cif''])"
  "joinpath p ''input.fasta'' = PosixPath (anchor p) (parts p @ [''input.fasta''])"
  "joinpath p ''input_map.mrc'' = PosixPath (anchor p) (parts p @ [''input_map.mrc''])"
  "joinpath p ''cryoatom'' = PosixPath (anchor p) (parts p @ [''cryoatom''])"
  "joinpath p ''run_cryoatom.py'' = PosixPath (anchor p) (parts p @ [''run_cryoatom.py''])"
  "joinpath p ''run_cryoatom_auto.py'' = PosixPath (anchor p) (parts p @ [''run_cryoatom_auto.py''])"
  by (simp_all add: joinpath_def join_def Path_def)

lemma new_events_append: "events st' = events st @ xs \<Longrightarrow> new_events st st' = xs"
  by (simp add: new_events_def)

lemma demo_paths:
  "Path ''/data/P1'' = PosixPath ''/'' [''data'', ''P1'']"
  "Path ''/data/P1/J1'' = PosixPath ''/'' [''data'', ''P1'', ''J1'']"
  "Path ''/data/P1/J1/map.mrc'' = PosixPath ''/'' [''data'', ''P1'', ''J1'', ''map.mrc'']"
  "Path ''J1/map.mrc'' = PosixPath [] [''J1'', ''map.mrc'']"
  "Path ''/data/s.fa'' = PosixPath ''/'' [''data'', ''s.fa'']"
  "Path ''/opt'' = PosixPath ''/'' [''opt'']"
  "Path ''/opt/run_cryoatom.py'' = PosixPath ''/'' [''opt'', ''run_cryoatom.py'']"
  "Path ''/opt/run_cryoatom_auto.py'' = PosixPath ''/'' [''opt'', ''run_cryoatom_auto.py'']"
  "Path ''/data/P1/cryoatom_P1_J1/out'' = PosixPath ''/'' [''data'', ''P1'', ''cryoatom_P1_J1'', ''out'']"
  "Path ''cryoatom_P1_J1'' = PosixPath [] [''cryoatom_P1_J1'']"
  "Path ''P1_J1_cryoatom.cif'' = PosixPath [] [''P1_J1_cryoatom.cif'']"
  "Path ''/scratch/run7/'' = PosixPath ''/'' [''scratch'', ''run7'']"
  "joinpath p ''cryoatom_P1_J1'' = PosixPath (anchor p) (parts p @ [''cryoatom_P1_J1''])"
  "joinpath p ''P1_J1_cryoatom.cif'' = PosixPath (anchor p) (parts p @ [''P1_J1_cryoatom.cif''])"
  by (simp_all add: Path_def joinpath_def join_def)

text \<open>
  C6. For every project directory, project uid, job uid and override, the working
  directory and the path of \<open>out/out.cif\<close> that \<open>run_cryoatom_auto.py\<close> and
  \<open>cryoatom_external_job.py\<close> recompute are the paths \<open>run_cryoatom.py\<close> computes, as
  paths and as strings: the override read as a path when one is given, and otherwise
  the project directory joined with \<open>cryoatom_<project uid>_<job uid>\<close>. The override
  reaches the inner scripts unchanged through their command lines.
\<close>

theorem work_dir_agreement:
  "auto_work_dir override project_dir puid juid = rc_work_dir override project_dir puid juid
   \<and> ext_work_dir override project_dir puid juid = rc_work_dir override project_dir puid juid
   \<and> auto_out_cif (auto_work_dir override project_dir puid juid)
       = rc_out_cif (rc_out_dir (rc_work_dir override project_dir puid juid))
   \<and> ext_out_cif (ext_work_dir override project_dir puid juid)
       = rc_out_cif (rc_out_dir (rc_work_dir override project_dir puid juid))
   \<and> str (auto_work_dir override project_dir puid juid)
       = str (rc_work_dir override project_dir puid juid)
   \<and> str (ext_work_dir override project_dir puid juid)
       = str (rc_work_dir override project_dir puid juid)
   \<and> str (auto_out_cif (auto_work_dir override project_dir puid juid))
       = str (rc_out_cif (rc_out_dir (rc_work_dir override project_dir puid juid)))
   \<and> str (ext_out_cif (ext_work_dir override project_dir puid juid))
       = str (rc_out_cif (rc_out_dir (rc_work_dir override project_dir puid juid)))
   \<and> rc_work_dir override project_dir puid juid
       = (if truthy override then Path (the override)
          else joinpath project_dir (''cryoatom_'' @ puid @ ''_'' @ juid))
   \<and> rc_work_dir (out_dir (rc_args a g)) project_dir puid juid
       = rc_work_dir (out_dir a) project_dir puid juid
   \<and> auto_work_dir (out_dir (auto_args a)) project_dir puid juid
       = ext_work_dir (out_dir a) project_dir puid juid"
  by (simp add: auto_work_dir_def ext_work_dir_def rc_work_dir_def auto_out_cif_def
        ext_out_cif_def rc_out_cif_def rc_out_dir_def rc_args_def auto_args_def)

theorem work_dir_agreement_witness:
  "str (auto_out_cif (auto_work_dir None (Path ''/data/P1'') ''P1'' ''J1''))
     = ''/data/P1/cryoatom_P1_J1/out/out.cif''
   \<and> str (rc_out_cif (rc_out_dir (rc_work_dir None (Path ''/data/P1'') ''P1'' ''J1'')))
     = ''/data/P1/cryoatom_P1_J1/out/out.cif''
   \<and> str (ext_out_cif (ext_work_dir (Some ''/scratch/run7/'') (Path ''/data/P1'') ''P1'' ''J1''))
     = ''/scratch/run7/out/out.cif''
   \<and> str (rc_out_cif (rc_out_dir (rc_work_dir (Some ''/scratch/run7/'') (Path ''/data/P1'') ''P1'' ''J1'')))
     = ''/scratch/run7/out/out.cif''"
proof -
  have a: "str (rc_out_cif (rc_out_dir (rc_work_dir None (Path ''/data/P1'') ''P1'' ''J1'')))
     = ''/data/P1/cryoatom_P1_J1/out/out.cif''"
    by (simp add: rc_work_dir_def rc_out_dir_def rc_out_cif_def demo_paths str_def)
  have b: "str (rc_out_cif (rc_out_dir (rc_work_dir (Some ''/scratch/run7/'') (Path ''/data/P1'') ''P1'' ''J1'')))
     = ''/scratch/run7/out/out.cif''"
    by (simp add: rc_work_dir_def rc_out_dir_def rc_out_cif_def demo_paths str_def)
  have c: "str (auto_out_cif (auto_work_dir None (Path ''/data/P1'') ''P1'' ''J1''))
     = str (rc_out_cif (rc_out_dir (rc_work_dir None (Path ''/data/P1'') ''P1'' ''J1'')))"
    using work_dir_agreement [where override = None and project_dir = "Path ''/data/P1''"
        and puid = "''P1''" and juid = "''J1''" and a = demo_args and g = 0]
    by blast
  have d: "str (ext_out_cif (ext_work_dir (Some ''/scratch/run7/'') (Path ''/data/P1'') ''P1'' ''J1''))
     = str (rc_out_cif (rc_out_dir (rc_work_dir (Some ''/scratch/run7/'') (Path ''/data/P1'') ''P1'' ''J1'')))"
    using work_dir_agreement [where override = "Some ''/scratch/run7/''"
        and project_dir = "Path ''/data/P1''"
        and puid = "''P1''" and juid = "''J1''" and a = demo_args and g = 0]
    by blast
  from a b c d show ?thesis by simp
qed

lemma emit_simps [simp]:
  "events (emit e st) = events st @ [e]"
  "files (emit e st) = files st"
  by (simp_all add: emit_def)

lemma logger_simps [simp]:
  "events (logger l m st) = events st @ [Log l m]"
  "files (logger l m st) = files st"
  by (simp_all add: logger_def)

lemma and_then_simps [simp]:
  "and_then (Ok x, st) f = f x st"
  "and_then (SysExit c, st) f = (SysExit c, st)"
  "and_then (Raised e, st) f = (Raised e, st)"
  by (simp_all add: and_then_def)

lemma mkdir_cases:
  "mkdir w p st =
     (if mkdir_ok w p then (Ok (), (emit (Mkdir p) st)\<lparr>files := insert p (files st)\<rparr>)
      else (Raised OtherError, emit (Mkdir p) st))"
  by (simp add: mkdir_def Let_def)

lemma copy2_cases:
  "copy2 w src dst st =
     (if src \<in> files st \<and> copy_ok w src dst
      then (Ok (), (emit (Copy src dst) st)\<lparr>files := insert dst (files st)\<rparr>)
      else (Raised OtherError, emit (Copy src dst) st))"
  by (simp add: copy2_def Let_def)

lemma rc_prepare_Ok:
  assumes "rc_prepare w a proj jb project_dir map_path st = (Ok r, st')"
  defines "wd \<equiv> rc_work_dir (out_dir a) project_dir (uid proj) (uid jb)"
  shows "r = (wd, joinpath wd ''input.fasta'',
              (if no_copy_map a then map_path else joinpath wd ''input_map.mrc''),
              joinpath wd ''out'')"
    and "events st' = events st
           @ [Mkdir wd, Log INFO (WorkDir wd),
              Copy (Path (fasta a)) (joinpath wd ''input.fasta''),
              Log INFO (CopiedFasta (joinpath wd ''input.fasta''))]
           @ (if no_copy_map a then [Log INFO (NotCopyingMap map_path)]
              else [Copy map_path (joinpath wd ''input_map.mrc''),
                    Log INFO (CopiedMap (joinpath wd ''input_map.mrc''))])
           @ [Mkdir (joinpath wd ''out''), Log INFO (OutputDir (joinpath wd ''out''))]"
    and "files st' = insert (joinpath wd ''out'')
           ((if no_copy_map a then files st \<union> {wd, joinpath wd ''input.fasta''}
             else files st \<union> {wd, joinpath wd ''input.fasta'', joinpath wd ''input_map.mrc''}))"
  using assms(1) unfolding wd_def
  by (auto simp: rc_prepare_def rc_out_dir_def mkdir_cases copy2_cases Let_def
           split: if_splits)

text \<open>
  C7. The layout \<open>run_cryoatom.py\<close> prepares depends only on the project directory,
  the uids of project and job and the override: whenever the preparation succeeds, the
  working directory is \<open>rc_work_dir\<close> of these, the FASTA copy is
  \<open>input.fasta\<close> in it, the output directory is \<open>out\<close> in it and the expected model
  file is \<open>out/out.cif\<close> in it; the map handed to the tool is \<open>input_map.mrc\<close> in the
  working directory when the map is copied and the resolved source path otherwise, and
  \<open>input_map.mrc\<close> is written exactly when the map is copied. A second preparation, in
  any environment and state, with the same four inputs gives the same paths.
\<close>

theorem rc_prepare_layout:
  assumes "rc_prepare w a proj jb project_dir map_path st
             = (Ok (work_dir, fasta_in, map_in, outd), st')"
  shows "work_dir = rc_work_dir (out_dir a) project_dir (uid proj) (uid jb)
     \<and> fasta_in = joinpath work_dir ''input.fasta''
     \<and> outd = joinpath work_dir ''out''
     \<and> rc_out_cif outd = joinpath (joinpath work_dir ''out'') ''out.cif''
     \<and> map_in = (if no_copy_map a then map_path else joinpath work_dir ''input_map.mrc'')
     \<and> (no_copy_map a \<longrightarrow>
           (\<forall>src. Copy src (joinpath work_dir ''input_map.mrc'') \<notin> set (new_events st st')))
     \<and> (\<not> no_copy_map a \<longrightarrow>
           Copy map_path (joinpath work_dir ''input_map.mrc'') \<in> set (new_events st st')
           \<and> joinpath work_dir ''input_map.mrc'' \<in> files st')
     \<and> (\<forall>w2 a2 proj2 jb2 map_path2 st2 r2 st2'.
           rc_prepare w2 a2 proj2 jb2 project_dir map_path2 st2 = (Ok r2, st2')
           \<and> out_dir a2 = out_dir a \<and> uid proj2 = uid proj \<and> uid jb2 = uid jb
           \<longrightarrow> fst r2 = work_dir \<and> fst (snd r2) = fasta_in \<and> snd (snd (snd r2)) = outd
               \<and> str (fst r2) = str work_dir \<and> str (fst (snd r2)) = str fasta_in
               \<and> str (snd (snd (snd r2))) = str outd)"
proof -
  note r = rc_prepare_Ok [OF assms]
  have wd: "work_dir = rc_work_dir (out_dir a) project_dir (uid proj) (uid jb)"
    and fi: "fasta_in = joinpath work_dir ''input.fasta''"
    and od: "outd = joinpath work_dir ''out''"
    and mi: "map_in = (if no_copy_map a then map_path else joinpath work_dir ''input_map.mrc'')"
    using r(1) by simp_all
  have ne: "new_events st st' =
       [Mkdir work_dir, Log INFO (WorkDir work_dir),
        Copy (Path (fasta a)) (joinpath work_dir ''input.fasta''),
        Log INFO (CopiedFasta (joinpath work_dir ''input.fasta''))]
       @ (if no_copy_map a then [Log INFO (NotCopyingMap map_path)]
          else [Copy map_path (joinpath work_dir ''input_map.mrc''),
                Log INFO (CopiedMap (joinpath work_dir ''input_map.mrc''))])
       @ [Mkdir (joinpath work_dir ''out''), Log INFO (OutputDir (joinpath work_dir ''out''))]"
    using r(2) unfolding wd by (intro new_events_append) simp
  have c1: "no_copy_map a \<longrightarrow>
           (\<forall>src. Copy src (joinpath work_dir ''input_map.mrc'') \<notin> set (new_events st st'))"
    by (simp add: ne)
  have c2: "\<not> no_copy_map a \<longrightarrow>
           Copy map_path (joinpath work_dir ''input_map.mrc'') \<in> set (new_events st st')
           \<and> joinpath work_dir ''input_map.mrc'' \<in> files st'"
    using r(3) by (simp add: ne wd)
  have c3: "fst r2 = work_dir \<and> fst (snd r2) = fasta_in \<and> snd (snd (snd r2)) = outd
               \<and> str (fst r2) = str work_dir \<and> str (fst (snd r2)) = str fasta_in
               \<and> str (snd (snd (snd r2))) = str outd"
    if "rc_prepare w2 a2 proj2 jb2 project_dir map_path2 st2 = (Ok r2, st2')
           \<and> out_dir a2 = out_dir a \<and> uid proj2 = uid proj \<and> uid jb2 = uid jb"
    for w2 a2 proj2 jb2 map_path2 st2 r2 st2'
  proof -
    from that have p: "rc_prepare w2 a2 proj2 jb2 project_dir map_path2 st2 = (Ok r2, st2')"
      and e: "out_dir a2 = out_dir a" "uid proj2 = uid proj" "uid jb2 = uid jb"
      by simp_all
    from rc_prepare_Ok(1) [OF p] e show ?thesis
      by (simp add: wd fi od)
  qed
  from wd fi od mi c1 c2 c3 show ?thesis
    by (simp add: rc_out_cif_def)
qed


lemma demo_rc_prepare:
  "fst (rc_prepare demo_world demo_args \<lparr>uid = ''P1'', dir = ''/data/P1''\<rparr>
          \<lparr>uid = ''J1'', dir = ''/data/P1/J1''\<rparr> (Path ''/data/P1'')
          (Path ''/data/P1/J1/map.mrc'') demo_state)
     = Ok (PosixPath ''/'' [''data'', ''P1'', ''cryoatom_P1_J1''],
           PosixPath ''/'' [''data'', ''P1'', ''cryoatom_P1_J1'', ''input.fasta''],
           PosixPath ''/'' [''data'', ''P1'', ''cryoatom_P1_J1'', ''input_map.mrc''],
           PosixPath ''/'' [''data'', ''P1'', ''cryoatom_P1_J1'', ''out''])"
  by (simp add: rc_prepare_def rc_work_dir_def rc_out_dir_def mkdir_cases copy2_cases Let_def
        demo_world_def demo_args_def demo_state_def demo_paths)

theorem rc_prepare_layout_witness:
  "fst (rc_prepare demo_world demo_args \<lparr>uid = ''P1'', dir = ''/data/P1''\<rparr>
          \<lparr>uid = ''J1'', dir = ''/data/P1/J1''\<rparr> (Path ''/data/P1'')
          (Path ''/data/P1/J1/map.mrc'') demo_state)
     = Ok (PosixPath ''/'' [''data'', ''P1'', ''cryoatom_P1_J1''],
           PosixPath ''/'' [''data'', ''P1'', ''cryoatom_P1_J1'', ''input.fasta''],
           PosixPath ''/'' [''data'', ''P1'', ''cryoatom_P1_J1'', ''input_map.mrc''],
           PosixPath ''/'' [''data'', ''P1'', ''cryoatom_P1_J1'', ''out''])
   \<and> PosixPath ''/'' [''data'', ''P1'', ''cryoatom_P1_J1'']
       = rc_work_dir (out_dir demo_args) (Path ''/data/P1'') ''P1'' ''J1''
   \<and> Copy (Path ''/data/P1/J1/map.mrc'')
          (PosixPath ''/'' [''data'', ''P1'', ''cryoatom_P1_J1'', ''input_map.mrc''])
       \<in> set (new_events demo_state
            (snd (rc_prepare demo_world demo_args \<lparr>uid = ''P1'', dir = ''/data/P1''\<rparr>
               \<lparr>uid = ''J1'', dir = ''/data/P1/J1''\<rparr> (Path ''/data/P1'')
               (Path ''/data/P1/J1/map.mrc'') demo_state)))
   \<and> rc_out_cif (PosixPath ''/'' [''data'', ''P1'', ''cryoatom_P1_J1'', ''out''])
       = PosixPath ''/'' [''data'', ''P1'', ''cryoatom_P1_J1'', ''out'', ''out.cif'']"
proof -
  let ?run = "rc_prepare demo_world demo_args \<lparr>uid = ''P1'', dir = ''/data/P1''\<rparr>
          \<lparr>uid = ''J1'', dir = ''/data/P1/J1''\<rparr> (Path ''/data/P1'')
          (Path ''/data/P1/J1/map.mrc'') demo_state"
  have e: "?run = (Ok (PosixPath ''/'' [''data'', ''P1'', ''cryoatom_P1_J1''],
           PosixPath ''/'' [''data'', ''P1'', ''cryoatom_P1_J1'', ''input.fasta''],
           PosixPath ''/'' [''data'', ''P1'', ''cryoatom_P1_J1'', ''input_map.mrc''],
           PosixPath ''/'' [''data'', ''P1'', ''cryoatom_P1_J1'', ''out'']), snd ?run)"
    using demo_rc_prepare by (simp add: prod_eq_iff)
  have n: "\<not> no_copy_map demo_args" by (simp add: demo_args_def)
  from rc_prepare_layout [OF e] n demo_rc_prepare show ?thesis
    by simp
qed

section \<open>The stages of run\_cryoatom.py\<close>

lemma rc_connect_Ok:
  "login w RunCryoatom = Some cs \<Longrightarrow> find_project cs (project a) = Some proj
     \<Longrightarrow> find_job cs (project a) (job a) = Some jb
     \<Longrightarrow> rc_connect w a st
           = (Ok (cs, proj, jb), logger INFO (UsingJob (uid proj) (uid jb)) (logger INFO Connecting st))"
  by (simp add: rc_connect_def Let_def)

lemma rc_select_row_Ok:
  "load_output cs jb (volume_output a) = Some ds \<Longrightarrow> 0 \<le> row_index a
     \<Longrightarrow> row_index a < int (length ds)
     \<Longrightarrow> rc_select_row cs a jb st
           = (Ok (ds ! nat (row_index a)),
              logger INFO (UsingRow (row_index a))
                (emit (Index (length ds) (row_index a)) (logger INFO (RowCount (length ds)) st)))"
  by (auto simp: rc_select_row_def getitem_def Let_def)

lemma run_cryoatom_SysExit:
  "credentials w \<Longrightarrow> run_cryoatom_main w a st = (SysExit c, st')
     \<Longrightarrow> run_cryoatom w a st = (exit_status c, st')"
  by (simp add: run_cryoatom_def)

lemma exit_status_1 [simp]: "exit_status 1 = 1"
  by (simp add: exit_status_def)

lemma exit_status_0 [simp]: "exit_status 0 = 0"
  by (simp add: exit_status_def)

text \<open>
  C8. For an absolute raw path the result of \<open>resolve_map_path\<close> is the resolution of
  that path alone, whatever the base directory; for a relative one it is the resolution
  of the base joined with it; so the result is a function of the raw path, the base and
  the resolution of the file system, and nothing else: the set of existing files is not
  an argument. The caller checks existence afterwards: when the resolved path does not
  exist, \<open>run_cryoatom.py\<close> logs the error and exits with status 1, having changed no
  file; when it exists, the stage returns it.
\<close>

theorem resolve_map_path_spec:
  "(is_absolute (Path raw)
      \<longrightarrow> resolve_map_path w base raw = realpath w (Path raw)
          \<and> resolve_map_path w base' raw = resolve_map_path w base raw)
   \<and> (\<not> is_absolute (Path raw)
      \<longrightarrow> resolve_map_path w base raw = realpath w (join base (Path raw)))
   \<and> (realpath w' = realpath w
      \<longrightarrow> resolve_map_path w' base raw = resolve_map_path w base raw)
   \<and> (credentials w \<and> rc_connect w a st = (Ok (cs, proj, jb), st1)
        \<and> rc_select_row cs a jb st1 = (Ok row, st2)
        \<and> choose_map_field row (map_field a) = Inr field
        \<and> map_of row field = Some raw
        \<and> resolve_map_path w (safe_dir proj) raw = Some p
        \<and> p \<notin> files st2
      \<longrightarrow> run_cryoatom w a st
            = (1, logger ERROR (MapNotFound p) (logger INFO (ChoseField field raw) st2))
          \<and> files (snd (run_cryoatom w a st)) = files st2)
   \<and> (choose_map_field row (map_field a) = Inr field
        \<and> map_of row field = Some raw
        \<and> resolve_map_path w (safe_dir proj) raw = Some p
        \<and> p \<in> files st2
      \<longrightarrow> rc_locate_map w a proj row st2
            = (Ok (safe_dir proj, p),
               logger INFO (ResolvedMap p) (logger INFO (ChoseField field raw) st2)))"
proof -
  have c1: "is_absolute (Path raw)
      \<longrightarrow> resolve_map_path w base raw = realpath w (Path raw)
          \<and> resolve_map_path w base' raw = resolve_map_path w base raw"
    by (simp add: resolve_map_path_def Let_def)
  have c2: "\<not> is_absolute (Path raw)
      \<longrightarrow> resolve_map_path w base raw = realpath w (join base (Path raw))"
    by (simp add: resolve_map_path_def Let_def)
  have c3: "realpath w' = realpath w
      \<longrightarrow> resolve_map_path w' base raw = resolve_map_path w base raw"
    by (simp add: resolve_map_path_def Let_def)
  have c4: "credentials w \<and> rc_connect w a st = (Ok (cs, proj, jb), st1)
        \<and> rc_select_row cs a jb st1 = (Ok row, st2)
        \<and> choose_map_field row (map_field a) = Inr field
        \<and> map_of row field = Some raw
        \<and> resolve_map_path w (safe_dir proj) raw = Some p
        \<and> p \<notin> files st2
      \<longrightarrow> run_cryoatom w a st
            = (1, logger ERROR (MapNotFound p) (logger INFO (ChoseField field raw) st2))
          \<and> files (snd (run_cryoatom w a st)) = files st2"
  proof
    assume h: "credentials w \<and> rc_connect w a st = (Ok (cs, proj, jb), st1)
        \<and> rc_select_row cs a jb st1 = (Ok row, st2)
        \<and> choose_map_field row (map_field a) = Inr field
        \<and> map_of row field = Some raw
        \<and> resolve_map_path w (safe_dir proj) raw = Some p
        \<and> p \<notin> files st2"
    then have l: "rc_locate_map w a proj row st2
        = (SysExit 1, logger ERROR (MapNotFound p) (logger INFO (ChoseField field raw) st2))"
      by (simp add: rc_locate_map_def Let_def)
    have "run_cryoatom_main w a st
        = (SysExit 1, logger ERROR (MapNotFound p) (logger INFO (ChoseField field raw) st2))"
      using h l by (simp add: run_cryoatom_main_def)
    with h have "run_cryoatom w a st
              = (1, logger ERROR (MapNotFound p) (logger INFO (ChoseField field raw) st2))"
      by (simp add: run_cryoatom_SysExit)
    then show "run_cryoatom w a st
              = (1, logger ERROR (MapNotFound p) (logger INFO (ChoseField field raw) st2))
            \<and> files (snd (run_cryoatom w a st)) = files st2"
      by simp
  qed
  have c5: "choose_map_field row (map_field a) = Inr field
        \<and> map_of row field = Some raw
        \<and> resolve_map_path w (safe_dir proj) raw = Some p
        \<and> p \<in> files st2
      \<longrightarrow> rc_locate_map w a proj row st2
            = (Ok (safe_dir proj, p),
               logger INFO (ResolvedMap p) (logger INFO (ChoseField field raw) st2))"
    by (simp add: rc_locate_map_def Let_def)
  show ?thesis
    by (intro conjI) (fact c1, fact c2, fact c3, fact c4, fact c5)
qed

lemma demo_session_simps:
  "login demo_world s = Some demo_session"
  "credentials demo_world"
  "find_project demo_session ''P1'' = Some \<lparr>uid = ''P1'', dir = ''/data/P1''\<rparr>"
  "find_job demo_session ''P1'' ''J1'' = Some \<lparr>uid = ''J1'', dir = ''/data/P1/J1''\<rparr>"
  "load_output demo_session jb ''volume''
     = Some [[(''other/path'', ''J1/other.mrc''), (''map_sharp/path'', ''J1/map.mrc'')]]"
  "project demo_args = ''P1''" "job demo_args = ''J1''" "volume_output demo_args = ''volume''"
  "row_index demo_args = 0" "map_field demo_args = None"
  by (simp_all add: demo_world_def demo_session_def demo_args_def)

lemma demo_connect:
  "rc_connect demo_world demo_args st
     = (Ok (demo_session, \<lparr>uid = ''P1'', dir = ''/data/P1''\<rparr>, \<lparr>uid = ''J1'', dir = ''/data/P1/J1''\<rparr>),
        logger INFO (UsingJob ''P1'' ''J1'') (logger INFO Connecting st))"
  by (simp add: rc_connect_Ok [where cs = demo_session] demo_session_simps)

lemma demo_select_row:
  "rc_select_row demo_session demo_args jb st
     = (Ok [(''other/path'', ''J1/other.mrc''), (''map_sharp/path'', ''J1/map.mrc'')],
        logger INFO (UsingRow 0) (emit (Index 1 0) (logger INFO (RowCount 1) st)))"
  using rc_select_row_Ok [where cs = demo_session and a = demo_args and jb = jb and st = st
      and ds = "[[(''other/path'', ''J1/other.mrc''), (''map_sharp/path'', ''J1/map.mrc'')]]"]
  by (simp add: demo_session_simps)

lemma demo_choose:
  "choose_map_field [(''other/path'', ''J1/other.mrc''), (''map_sharp/path'', ''J1/map.mrc'')]
     None = Inr ''map_sharp/path''"
  by (simp add: choose_map_field_def preferred_def)

lemma demo_resolve:
  "resolve_map_path demo_world (safe_dir \<lparr>uid = ''P1'', dir = ''/data/P1''\<rparr>) ''J1/map.mrc''
     = Some (PosixPath ''/'' [''data'', ''P1'', ''J1'', ''map.mrc''])"
  by (simp add: resolve_map_path_def safe_dir_def is_absolute_def join_def demo_paths
        demo_world_def Let_def)

theorem resolve_map_path_spec_witness:
  "resolve_map_path demo_world (Path ''/data/P1'') ''/data/P1/J1/map.mrc''
     = Some (PosixPath ''/'' [''data'', ''P1'', ''J1'', ''map.mrc''])
   \<and> resolve_map_path demo_world (Path ''/opt'') ''/data/P1/J1/map.mrc''
     = Some (PosixPath ''/'' [''data'', ''P1'', ''J1'', ''map.mrc''])
   \<and> resolve_map_path demo_world (Path ''/data/P1'') ''J1/map.mrc''
     = Some (PosixPath ''/'' [''data'', ''P1'', ''J1'', ''map.mrc''])
   \<and> PosixPath ''/'' [''data'', ''P1'', ''J1'', ''map.mrc''] \<notin> files (demo_state\<lparr>files := {Path ''/data/s.fa''}\<rparr>)
   \<and> fst (run_cryoatom demo_world demo_args (demo_state\<lparr>files := {Path ''/data/s.fa''}\<rparr>)) = 1
   \<and> files (snd (run_cryoatom demo_world demo_args (demo_state\<lparr>files := {Path ''/data/s.fa''}\<rparr>)))
       = {Path ''/data/s.fa''}
   \<and> last (events (snd (run_cryoatom demo_world demo_args (demo_state\<lparr>files := {Path ''/data/s.fa''}\<rparr>))))
       = Log ERROR (MapNotFound (PosixPath ''/'' [''data'', ''P1'', ''J1'', ''map.mrc'']))"
proof -
  let ?st = "demo_state\<lparr>files := {Path ''/data/s.fa''}\<rparr>"
  let ?st1 = "logger INFO (UsingJob ''P1'' ''J1'') (logger INFO Connecting ?st)"
  let ?st2 = "logger INFO (UsingRow 0) (emit (Index 1 0) (logger INFO (RowCount 1) ?st1))"
  let ?row = "[(''other/path'', ''J1/other.mrc''), (''map_sharp/path'', ''J1/map.mrc'')]"
  let ?p = "PosixPath ''/'' [''data'', ''P1'', ''J1'', ''map.mrc'']"
  note t = resolve_map_path_spec [where w = demo_world and a = demo_args and st = ?st
      and cs = demo_session and proj = "\<lparr>uid = ''P1'', dir = ''/data/P1''\<rparr>"
      and jb = "\<lparr>uid = ''J1'', dir = ''/data/P1/J1''\<rparr>" and ?st1.0 = ?st1 and ?st2.0 = ?st2
      and row = ?row and field = "''map_sharp/path''" and p = ?p and w' = demo_world]
  have a1: "is_absolute (Path ''/data/P1/J1/map.mrc'')"
    by (simp add: is_absolute_def demo_paths)
  have r1: "realpath demo_world (Path ''/data/P1/J1/map.mrc'') = Some ?p"
    by (simp add: demo_world_def demo_paths)
  have abs1: "resolve_map_path demo_world (Path ''/data/P1'') ''/data/P1/J1/map.mrc'' = Some ?p"
    using t [where raw = "''/data/P1/J1/map.mrc''" and base = "Path ''/data/P1''" and base' = "Path ''/opt''"]
      a1 r1 by simp
  have abs2: "resolve_map_path demo_world (Path ''/opt'') ''/data/P1/J1/map.mrc'' = Some ?p"
    using t [where raw = "''/data/P1/J1/map.mrc''" and base = "Path ''/data/P1''" and base' = "Path ''/opt''"]
      a1 r1 by simp
  have rel: "resolve_map_path demo_world (Path ''/data/P1'') ''J1/map.mrc'' = Some ?p"
    using demo_resolve by (simp add: safe_dir_def)
  have nf: "?p \<notin> files ?st"
    by (simp add: demo_paths)
  have nf2: "?p \<notin> files ?st2"
    by (simp add: demo_paths)
  have hyp: "credentials demo_world
        \<and> rc_connect demo_world demo_args ?st
            = (Ok (demo_session, \<lparr>uid = ''P1'', dir = ''/data/P1''\<rparr>, \<lparr>uid = ''J1'', dir = ''/data/P1/J1''\<rparr>), ?st1)
        \<and> rc_select_row demo_session demo_args \<lparr>uid = ''J1'', dir = ''/data/P1/J1''\<rparr> ?st1 = (Ok ?row, ?st2)
        \<and> choose_map_field ?row (map_field demo_args) = Inr ''map_sharp/path''
        \<and> map_of ?row ''map_sharp/path'' = Some ''J1/map.mrc''
        \<and> resolve_map_path demo_world (safe_dir \<lparr>uid = ''P1'', dir = ''/data/P1''\<rparr>) ''J1/map.mrc'' = Some ?p
        \<and> ?p \<notin> files ?st2"
    using nf2 by (simp add: demo_connect demo_select_row demo_choose demo_resolve demo_session_simps)
  have run: "run_cryoatom demo_world demo_args ?st
            = (1, logger ERROR (MapNotFound ?p) (logger INFO (ChoseField ''map_sharp/path'' ''J1/map.mrc'') ?st2))"
    using t [where raw = "''J1/map.mrc''" and base = "Path ''/data/P1''" and base' = "Path ''/opt''"] hyp
    by blast
  from abs1 abs2 rel nf run show ?thesis
    by simp
qed

section \<open>Events of a run\<close>

lemma adds_refl [simp]: "adds Q st st"
  by (simp add: adds_def)

lemma adds_trans: "adds Q st st1 \<Longrightarrow> adds Q st1 st2 \<Longrightarrow> adds Q st st2"
  by (auto simp: adds_def)

lemma adds_emit: "adds Q st st1 \<Longrightarrow> Q e \<Longrightarrow> adds Q st (emit e st1)"
  by (auto simp: adds_def)

lemma adds_logger: "adds Q st st1 \<Longrightarrow> Q (Log l m) \<Longrightarrow> adds Q st (logger l m st1)"
  by (auto simp: adds_def)

lemma adds_files [simp]: "adds Q st (st1\<lparr>files := fs\<rparr>) = adds Q st st1"
  by (simp add: adds_def)

lemma adds_new_events: "adds Q st st' \<Longrightarrow> \<forall>e \<in> set (new_events st st'). Q e"
  by (auto simp: adds_def new_events_def list_all_iff)

lemma adds_and_then:
  "adds Q st0 (snd m) \<Longrightarrow> (\<And>x s. adds Q st0 s \<Longrightarrow> adds Q st0 (snd (f x s)))
     \<Longrightarrow> adds Q st0 (snd (and_then m f))"
proof -
  assume m: "adds Q st0 (snd m)" and f: "\<And>x s. adds Q st0 s \<Longrightarrow> adds Q st0 (snd (f x s))"
  obtain r s where ms: "m = (r, s)" by (cases m)
  show ?thesis
  proof (cases r)
    case (Ok x)
    with ms m f [of s x] show ?thesis by simp
  next
    case (SysExit c)
    with ms m show ?thesis by simp
  next
    case (Raised e)
    with ms m show ?thesis by simp
  qed
qed

lemma index_ok_simps [simp]:
  "index_ok (Log l m)" "index_ok (JobLog u g p)" "index_ok (EjLog j)" "index_ok (Mkdir p)"
  "index_ok (Copy p q)" "index_ok (RunTool c)" "index_ok (CreateExternalJob u)"
  "index_ok (Index n r) = (0 \<le> r \<and> r < int n)"
  by (simp_all add: index_ok_def)

lemma rc_connect_index:
  "adds index_ok st0 st \<Longrightarrow> adds index_ok st0 (snd (rc_connect w a st))"
  by (auto simp: rc_connect_def Let_def split: option.splits intro!: adds_logger)

lemma rc_select_row_index:
  "adds index_ok st0 st \<Longrightarrow> adds index_ok st0 (snd (rc_select_row cs a jb st))"
  by (auto simp: rc_select_row_def getitem_def Let_def split: option.splits
        intro!: adds_logger adds_emit)

lemma rc_locate_map_index:
  "adds index_ok st0 st \<Longrightarrow> adds index_ok st0 (snd (rc_locate_map w a proj row st))"
  by (auto simp: rc_locate_map_def Let_def split: option.splits sum.splits intro!: adds_logger)

lemma mkdir_index: "adds index_ok st0 st \<Longrightarrow> adds index_ok st0 (snd (mkdir w p st))"
  by (auto simp: mkdir_cases intro!: adds_emit)

lemma copy2_index: "adds index_ok st0 st \<Longrightarrow> adds index_ok st0 (snd (copy2 w p q st))"
  by (auto simp: copy2_cases intro!: adds_emit)

lemma rc_prepare_index:
  "adds index_ok st0 st
     \<Longrightarrow> adds index_ok st0 (snd (rc_prepare w a proj jb project_dir map_path st))"
  unfolding rc_prepare_def Let_def
  by (auto intro!: adds_and_then adds_logger mkdir_index copy2_index)

lemma rc_invoke_index:
  "adds index_ok st0 st
     \<Longrightarrow> adds index_ok st0 (snd (rc_invoke w a work_dir fasta_in map_in outd st))"
  by (auto simp: rc_invoke_def Let_def split: option.splits intro!: adds_logger adds_emit)

lemma run_cryoatom_main_index:
  "adds index_ok st0 st \<Longrightarrow> adds index_ok st0 (snd (run_cryoatom_main w a st))"
  unfolding run_cryoatom_main_def
  by (auto split: prod.splits
           intro!: adds_and_then rc_connect_index rc_select_row_index rc_locate_map_index
                   rc_prepare_index rc_invoke_index)

lemma run_cryoatom_index:
  assumes "adds index_ok st0 st"
  shows "adds index_ok st0 (snd (run_cryoatom w a st))"
proof (cases "credentials w")
  case False
  then show ?thesis using assms by (simp add: run_cryoatom_def)
next
  case True
  obtain r s where m: "run_cryoatom_main w a st = (r, s)"
    by (cases "run_cryoatom_main w a st")
  have s: "adds index_ok st0 s"
    using run_cryoatom_main_index [OF assms, of w a] m by simp
  show ?thesis
    using True m s
    by (cases r) (auto simp: run_cryoatom_def split: exn.splits intro!: adds_logger)
qed

lemma rc_connect_Ok_state:
  "rc_connect w a st = (Ok (cs, proj, jb), st1)
     \<Longrightarrow> st1 = logger INFO (UsingJob (uid proj) (uid jb)) (logger INFO Connecting st)"
  by (auto simp: rc_connect_def Let_def split: option.splits)

text \<open>
  C10. In every run of \<open>run_cryoatom.py\<close>, each read \<open>ds[r]\<close> of a dataset of \<open>n\<close>
  rows has \<open>0 \<le> r < n\<close>. When the loaded dataset is empty or the requested row index
  is out of range, the process exits with status 1 before any row is read: the run has
  added log records only, the last of them the error, and the set of files is
  unchanged. When the index is in range, the row read is row \<open>r\<close>.
\<close>

theorem row_index_guard:
  "(\<forall>e \<in> set (new_events st (snd (run_cryoatom w a st))). index_ok e)
   \<and> (credentials w \<and> rc_connect w a st = (Ok (cs, proj, jb), st1)
        \<and> load_output cs jb (volume_output a) = Some ds
        \<and> (length ds = 0 \<or> row_index a < 0 \<or> int (length ds) \<le> row_index a)
      \<longrightarrow> fst (run_cryoatom w a st) = 1
          \<and> files (snd (run_cryoatom w a st)) = files st
          \<and> (\<forall>e \<in> set (new_events st (snd (run_cryoatom w a st))). is_log e)
          \<and> last (events (snd (run_cryoatom w a st)))
              = (if length ds = 0 then Log ERROR (OutputEmpty (volume_output a))
                 else Log ERROR (RowIndexOutOfRange (row_index a) (length ds))))
   \<and> (load_output cs jb (volume_output a) = Some ds
        \<and> 0 \<le> row_index a \<and> row_index a < int (length ds)
      \<longrightarrow> fst (rc_select_row cs a jb st1) = Ok (ds ! nat (row_index a))
          \<and> new_events st1 (snd (rc_select_row cs a jb st1))
              = [Log INFO (RowCount (length ds)), Index (length ds) (row_index a),
                 Log INFO (UsingRow (row_index a))])"
proof -
  have c1: "\<forall>e \<in> set (new_events st (snd (run_cryoatom w a st))). index_ok e"
    by (intro adds_new_events run_cryoatom_index adds_refl)
  have c2: "credentials w \<and> rc_connect w a st = (Ok (cs, proj, jb), st1)
        \<and> load_output cs jb (volume_output a) = Some ds
        \<and> (length ds = 0 \<or> row_index a < 0 \<or> int (length ds) \<le> row_index a)
      \<longrightarrow> fst (run_cryoatom w a st) = 1
          \<and> files (snd (run_cryoatom w a st)) = files st
          \<and> (\<forall>e \<in> set (new_events st (snd (run_cryoatom w a st))). is_log e)
          \<and> last (events (snd (run_cryoatom w a st)))
              = (if length ds = 0 then Log ERROR (OutputEmpty (volume_output a))
                 else Log ERROR (RowIndexOutOfRange (row_index a) (length ds)))"
  proof
    assume h: "credentials w \<and> rc_connect w a st = (Ok (cs, proj, jb), st1)
        \<and> load_output cs jb (volume_output a) = Some ds
        \<and> (length ds = 0 \<or> row_index a < 0 \<or> int (length ds) \<le> row_index a)"
    then have "rc_connect w a st = (Ok (cs, proj, jb), st1)" by simp
    then have st1: "st1 = logger INFO (UsingJob (uid proj) (uid jb)) (logger INFO Connecting st)"
      by (rule rc_connect_Ok_state)
    let ?e = "if length ds = 0 then [Log ERROR (OutputEmpty (volume_output a))]
              else [Log INFO (RowCount (length ds)),
                    Log ERROR (RowIndexOutOfRange (row_index a) (length ds))]"
    let ?st' = "st1\<lparr>events := events st1 @ ?e\<rparr>"
    have sel: "rc_select_row cs a jb st1 = (SysExit 1, ?st')"
      using h by (auto simp: rc_select_row_def Let_def logger_def emit_def)
    have "run_cryoatom_main w a st = (SysExit 1, ?st')"
      using h sel by (simp add: run_cryoatom_main_def)
    with h have run: "run_cryoatom w a st = (1, ?st')"
      by (simp add: run_cryoatom_SysExit)
    show "fst (run_cryoatom w a st) = 1
          \<and> files (snd (run_cryoatom w a st)) = files st
          \<and> (\<forall>e \<in> set (new_events st (snd (run_cryoatom w a st))). is_log e)
          \<and> last (events (snd (run_cryoatom w a st)))
              = (if length ds = 0 then Log ERROR (OutputEmpty (volume_output a))
                 else Log ERROR (RowIndexOutOfRange (row_index a) (length ds)))"
      unfolding run by (auto simp: st1 new_events_def is_log_def)
  qed
  have c3: "load_output cs jb (volume_output a) = Some ds
        \<and> 0 \<le> row_index a \<and> row_index a < int (length ds)
      \<longrightarrow> fst (rc_select_row cs a jb st1) = Ok (ds ! nat (row_index a))
          \<and> new_events st1 (snd (rc_select_row cs a jb st1))
              = [Log INFO (RowCount (length ds)), Index (length ds) (row_index a),
                 Log INFO (UsingRow (row_index a))]"
  proof
    assume h: "load_output cs jb (volume_output a) = Some ds
        \<and> 0 \<le> row_index a \<and> row_index a < int (length ds)"
    then have "rc_select_row cs a jb st1
           = (Ok (ds ! nat (row_index a)),
              logger INFO (UsingRow (row_index a))
                (emit (Index (length ds) (row_index a)) (logger INFO (RowCount (length ds)) st1)))"
      by (intro rc_select_row_Ok) simp_all
    then show "fst (rc_select_row cs a jb st1) = Ok (ds ! nat (row_index a))
          \<and> new_events st1 (snd (rc_select_row cs a jb st1))
              = [Log INFO (RowCount (length ds)), Index (length ds) (row_index a),
                 Log INFO (UsingRow (row_index a))]"
      by (simp add: new_events_def)
  qed
  show ?thesis
    by (intro conjI) (fact c1, fact c2, fact c3)
qed

theorem row_index_guard_witness:
  "fst (run_cryoatom demo_world (demo_args\<lparr>row_index := 1\<rparr>) demo_state) = 1
   \<and> files (snd (run_cryoatom demo_world (demo_args\<lparr>row_index := 1\<rparr>) demo_state))
       = files demo_state
   \<and> last (events (snd (run_cryoatom demo_world (demo_args\<lparr>row_index := 1\<rparr>) demo_state)))
       = Log ERROR (RowIndexOutOfRange 1 1)
   \<and> list_all is_log
       (new_events demo_state (snd (run_cryoatom demo_world (demo_args\<lparr>row_index := 1\<rparr>) demo_state)))
   \<and> list_all index_ok
       (new_events demo_state (snd (run_cryoatom demo_world (demo_args\<lparr>row_index := 1\<rparr>) demo_state)))
   \<and> fst (rc_select_row demo_session demo_args \<lparr>uid = ''J1'', dir = ''/data/P1/J1''\<rparr> demo_state)
       = Ok [(''other/path'', ''J1/other.mrc''), (''map_sharp/path'', ''J1/map.mrc'')]
   \<and> new_events demo_state
        (snd (rc_select_row demo_session demo_args \<lparr>uid = ''J1'', dir = ''/data/P1/J1''\<rparr> demo_state))
       = [Log INFO (RowCount 1), Index 1 0, Log INFO (UsingRow 0)]"
proof -
  let ?a = "demo_args\<lparr>row_index := 1\<rparr>"
  let ?ds = "[[(''other/path'', ''J1/other.mrc''), (''map_sharp/path'', ''J1/map.mrc'')]]"
  let ?jb = "\<lparr>uid = ''J1'', dir = ''/data/P1/J1''\<rparr>"
  let ?proj = "\<lparr>uid = ''P1'', dir = ''/data/P1''\<rparr>"
  let ?st1 = "logger INFO (UsingJob ''P1'' ''J1'') (logger INFO Connecting demo_state)"
  have con: "rc_connect demo_world ?a demo_state = (Ok (demo_session, ?proj, ?jb), ?st1)"
    by (simp add: rc_connect_Ok [where cs = demo_session and proj = ?proj and jb = ?jb]
          demo_session_simps demo_args_def)
  have lo: "load_output demo_session ?jb (volume_output ?a) = Some ?ds"
    by (simp add: demo_session_simps demo_args_def)
  have h1: "credentials demo_world \<and> rc_connect demo_world ?a demo_state
          = (Ok (demo_session, ?proj, ?jb), ?st1)
        \<and> load_output demo_session ?jb (volume_output ?a) = Some ?ds
        \<and> (length ?ds = 0 \<or> row_index ?a < 0 \<or> int (length ?ds) \<le> row_index ?a)"
    using con lo by (simp add: demo_session_simps)
  note t1 = row_index_guard [where w = demo_world and a = ?a and st = demo_state
      and cs = demo_session and proj = ?proj and jb = ?jb and ?st1.0 = ?st1 and ds = ?ds]
  have r1: "fst (run_cryoatom demo_world ?a demo_state) = 1
          \<and> files (snd (run_cryoatom demo_world ?a demo_state)) = files demo_state
          \<and> (\<forall>e \<in> set (new_events demo_state (snd (run_cryoatom demo_world ?a demo_state))). is_log e)
          \<and> last (events (snd (run_cryoatom demo_world ?a demo_state)))
              = Log ERROR (RowIndexOutOfRange 1 1)"
    using t1 h1 by simp
  have r2: "\<forall>e \<in> set (new_events demo_state (snd (run_cryoatom demo_world ?a demo_state))). index_ok e"
    using t1 by blast
  have h3: "load_output demo_session ?jb (volume_output demo_args) = Some ?ds
        \<and> 0 \<le> row_index demo_args \<and> row_index demo_args < int (length ?ds)"
    by (simp add: demo_session_simps)
  have r3: "fst (rc_select_row demo_session demo_args ?jb demo_state) = Ok (?ds ! nat (row_index demo_args))
          \<and> new_events demo_state (snd (rc_select_row demo_session demo_args ?jb demo_state))
              = [Log INFO (RowCount (length ?ds)), Index (length ?ds) (row_index demo_args),
                 Log INFO (UsingRow (row_index demo_args))]"
    using row_index_guard [where a = demo_args and cs = demo_session and jb = ?jb
        and ?st1.0 = demo_state and ds = ?ds and st = demo_state and w = demo_world] h3
    by blast
  from r1 r2 r3 show ?thesis
    by (simp add: list_all_iff demo_session_simps)
qed

section \<open>Failure of the modelling tool\<close>

lemma rc_connect_not_CPE:
  "rc_connect w a st = (Raised (CalledProcessError c), st') \<Longrightarrow> False"
  by (auto simp: rc_connect_def Let_def split: option.splits)

lemma rc_select_row_not_CPE:
  "rc_select_row cs a jb st = (Raised (CalledProcessError c), st') \<Longrightarrow> False"
  by (auto simp: rc_select_row_def getitem_def Let_def split: option.splits if_splits)

lemma rc_locate_map_not_CPE:
  "rc_locate_map w a proj row st = (Raised (CalledProcessError c), st') \<Longrightarrow> False"
  by (auto simp: rc_locate_map_def Let_def split: option.splits sum.splits if_splits)

lemma rc_prepare_not_CPE:
  "rc_prepare w a proj jb project_dir map_path st = (Raised (CalledProcessError c), st') \<Longrightarrow> False"
  by (auto simp: rc_prepare_def mkdir_cases copy2_cases Let_def split: if_splits)

lemma rc_invoke_CPE:
  assumes "rc_invoke w a work_dir fasta_in map_in outd st = (Raised (CalledProcessError c), st')"
  shows "c \<noteq> 0 \<and> (\<exists>cmd (st0::state). events st' = events st0 @ [RunTool cmd]
                        \<and> cryoatom w cmd (files st0) = Some (c, files st'))"
proof -
  let ?cmd = "\<lparr> seq_arg = str fasta_in, vol_arg = str map_in, out_arg = str outd,
                 dev_arg = gpu a, cwd = str work_dir \<rparr>"
  let ?st0 = "logger INFO (WillRun ?cmd) st"
  from assms obtain fs where t: "cryoatom w ?cmd (files st) = Some (c, fs)"
    and c: "c \<noteq> 0" and s: "st' = (emit (RunTool ?cmd) ?st0)\<lparr>files := fs\<rparr>"
    by (auto simp: rc_invoke_def Let_def split: option.splits prod.splits if_splits)
  have e: "events st' = events ?st0 @ [RunTool ?cmd]" using s by simp
  have r: "cryoatom w ?cmd (files ?st0) = Some (c, files st')" using t s by simp
  have "\<exists>cmd (st0::state). events st' = events st0 @ [RunTool cmd]
          \<and> cryoatom w cmd (files st0) = Some (c, files st')"
    using e r by (intro exI conjI) assumption+
  with c show ?thesis by simp
qed

lemma and_then_Raised:
  "and_then m f = (Raised e, st')
     \<Longrightarrow> m = (Raised e, st') \<or> (\<exists>x s. m = (Ok x, s) \<and> f x s = (Raised e, st'))"
  by (cases m; cases "fst m") (auto simp: and_then_def)

lemma run_cryoatom_main_CPE:
  assumes "run_cryoatom_main w a st = (Raised (CalledProcessError c), st')"
  shows "c \<noteq> 0 \<and> (\<exists>cmd (st0::state). events st' = events st0 @ [RunTool cmd]
                        \<and> cryoatom w cmd (files st0) = Some (c, files st'))"
  using assms unfolding run_cryoatom_main_def
  by (auto dest!: and_then_Raised
           dest: rc_connect_not_CPE rc_select_row_not_CPE rc_locate_map_not_CPE
                 rc_prepare_not_CPE rc_invoke_CPE)

lemma exit_status_code: "0 < c \<Longrightarrow> c < 256 \<Longrightarrow> exit_status c = c"
  by (simp add: exit_status_def)

text \<open>
  C3. When the modelling tool returns a non-zero code \<open>c\<close> (an exit code, between 1
  and 255), \<open>run_cryoatom.py\<close> logs the failure and exits with status \<open>c\<close>, and
  \<open>run_cryoatom_auto.py\<close> logs the failure of its subprocess and exits with status
  \<open>c\<close> as well; its final state is the state the tool left plus these two error
  records, so nothing is done after the tool: no directory is made in the job
  directory, nothing is copied there and nothing is written to the job's log. The
  exception that carries the code is raised by the run of the tool whenever the tool
  returns a non-zero code, and by nothing else.
\<close>

theorem tool_failure_exit_code:
  "(credentials w \<and> run_cryoatom_main w a st = (Raised (CalledProcessError c), st')
      \<and> 0 < c \<and> c < 256
      \<longrightarrow> run_cryoatom w a st = (c, logger ERROR (ToolFailed c) st'))
   \<and> (credentials w \<and> auto_select_gpu lib w b st = (g, st1)
      \<and> joinpath (script_dir w) ''run_cryoatom.py'' \<in> files st1
      \<and> run_cryoatom_main w (rc_args b g) (logger INFO (Calling (rc_args b g)) st1)
           = (Raised (CalledProcessError c), st2)
      \<and> 0 < c \<and> c < 256
      \<longrightarrow> run_cryoatom_auto lib w b st
            = (c, logger ERROR (SubprocessFailed c) (logger ERROR (ToolFailed c) st2)))
   \<and> (run_cryoatom_main w a st = (Raised (CalledProcessError c), st')
      \<longrightarrow> c \<noteq> 0 \<and> (\<exists>cmd (st0::state). events st' = events st0 @ [RunTool cmd]
                          \<and> cryoatom w cmd (files st0) = Some (c, files st')))
   \<and> (cmd = \<lparr> seq_arg = str fasta_in, vol_arg = str map_in, out_arg = str outd,
               dev_arg = gpu a, cwd = str work_dir \<rparr>
        \<and> cryoatom w cmd (files st) = Some (c, fs) \<and> c \<noteq> 0
      \<longrightarrow> rc_invoke w a work_dir fasta_in map_in outd st
            = (Raised (CalledProcessError c),
               (emit (RunTool cmd) (logger INFO (WillRun cmd) st))\<lparr>files := fs\<rparr>))"
proof -
  have c4: "cmd = \<lparr> seq_arg = str fasta_in, vol_arg = str map_in, out_arg = str outd,
               dev_arg = gpu a, cwd = str work_dir \<rparr>
        \<and> cryoatom w cmd (files st) = Some (c, fs) \<and> c \<noteq> 0
      \<longrightarrow> rc_invoke w a work_dir fasta_in map_in outd st
            = (Raised (CalledProcessError c),
               (emit (RunTool cmd) (logger INFO (WillRun cmd) st))\<lparr>files := fs\<rparr>)"
    by (auto simp: rc_invoke_def Let_def)
  have c1: "credentials w \<and> run_cryoatom_main w a st = (Raised (CalledProcessError c), st')
      \<and> 0 < c \<and> c < 256
      \<longrightarrow> run_cryoatom w a st = (c, logger ERROR (ToolFailed c) st')"
    by (simp add: run_cryoatom_def exit_status_code)
  have c2: "credentials w \<and> auto_select_gpu lib w b st = (g, st1)
      \<and> joinpath (script_dir w) ''run_cryoatom.py'' \<in> files st1
      \<and> run_cryoatom_main w (rc_args b g) (logger INFO (Calling (rc_args b g)) st1)
           = (Raised (CalledProcessError c), st2)
      \<and> 0 < c \<and> c < 256
      \<longrightarrow> run_cryoatom_auto lib w b st
            = (c, logger ERROR (SubprocessFailed c) (logger ERROR (ToolFailed c) st2))"
  proof
    assume h: "credentials w \<and> auto_select_gpu lib w b st = (g, st1)
      \<and> joinpath (script_dir w) ''run_cryoatom.py'' \<in> files st1
      \<and> run_cryoatom_main w (rc_args b g) (logger INFO (Calling (rc_args b g)) st1)
           = (Raised (CalledProcessError c), st2)
      \<and> 0 < c \<and> c < 256"
    then have sub: "run_cryoatom w (rc_args b g) (logger INFO (Calling (rc_args b g)) st1)
        = (c, logger ERROR (ToolFailed c) st2)"
      by (simp add: run_cryoatom_def exit_status_code)
    have "run_cryoatom_auto_main lib w b st
        = (SysExit c, logger ERROR (SubprocessFailed c) (logger ERROR (ToolFailed c) st2))"
      using h sub by (simp add: run_cryoatom_auto_main_def Let_def)
    with h show "run_cryoatom_auto lib w b st
            = (c, logger ERROR (SubprocessFailed c) (logger ERROR (ToolFailed c) st2))"
      by (simp add: run_cryoatom_auto_def exit_status_code)
  qed
  have c3: "run_cryoatom_main w a st = (Raised (CalledProcessError c), st')
      \<longrightarrow> c \<noteq> 0 \<and> (\<exists>cmd (st0::state). events st' = events st0 @ [RunTool cmd]
                          \<and> cryoatom w cmd (files st0) = Some (c, files st'))"
    using run_cryoatom_main_CPE by blast
  show ?thesis
    by (intro conjI) (fact c1, fact c2, fact c3, fact c4)
qed

lemma demo_args_simps:
  "rc_args demo_args g = demo_args\<lparr>workspace := [], gpu := Some g\<rparr>"
  "auto_args demo_args = demo_args\<lparr>workspace := []\<rparr>"
  "rc_args (demo_args\<lparr>workspace := []\<rparr>) g = demo_args\<lparr>workspace := [], gpu := Some g\<rparr>"
  by (simp_all add: rc_args_def auto_args_def demo_args_def)

lemmas demo_eval =
  run_cryoatom_def run_cryoatom_main_def rc_connect_def rc_select_row_def getitem_def
  rc_locate_map_def resolve_map_path_def rc_prepare_def rc_invoke_def rc_work_dir_def
  rc_out_dir_def rc_out_cif_def safe_dir_def is_absolute_def join_def str_def
  choose_map_field_def preferred_def mkdir_cases copy2_cases Let_def
  demo_world_def demo_session_def demo_args_def demo_state_def demo_paths
  logger_def emit_def exit_status_def

lemma demo_select_gpu:
  "auto_select_gpu demo_lib (demo_world\<lparr>cryoatom := T\<rparr>) demo_args st
     = (2, st\<lparr>events := events st @ [Log INFO (Gpu (GpuSelected 2))]\<rparr>)"
  by (simp add: auto_select_gpu_def demo_world_def demo_args_def demo_pick)

theorem tool_failure_exit_code_witness:
  "fst (run_cryoatom_auto demo_lib (demo_world\<lparr>cryoatom := (\<lambda>c fs. Some (137, fs))\<rparr>)
          demo_args demo_state) = 137
   \<and> last (events (snd (run_cryoatom_auto demo_lib
          (demo_world\<lparr>cryoatom := (\<lambda>c fs. Some (137, fs))\<rparr>) demo_args demo_state)))
       = Log ERROR (SubprocessFailed 137)
   \<and> PosixPath ''/'' [''data'', ''P1'', ''J1'', ''cryoatom''] \<notin>
        files (snd (run_cryoatom_auto demo_lib
          (demo_world\<lparr>cryoatom := (\<lambda>c fs. Some (137, fs))\<rparr>) demo_args demo_state))
   \<and> PosixPath ''/'' [''data'', ''P1'', ''J1'', ''cryoatom'', ''P1_J1_cryoatom.cif''] \<notin>
        files (snd (run_cryoatom_auto demo_lib
          (demo_world\<lparr>cryoatom := (\<lambda>c fs. Some (137, fs))\<rparr>) demo_args demo_state))"
proof -
  let ?w = "demo_world\<lparr>cryoatom := (\<lambda>c fs. Some (137, fs))\<rparr>"
  let ?st1 = "demo_state\<lparr>events := events demo_state @ [Log INFO (Gpu (GpuSelected 2))]\<rparr>"
  let ?a = "demo_args\<lparr>workspace := [], gpu := Some 2\<rparr>"
  let ?m = "run_cryoatom_main ?w ?a (logger INFO (Calling ?a) ?st1)"
  have f: "fst ?m = Raised (CalledProcessError 137)"
    by (simp add: demo_eval)
  have fs: "files (snd ?m)
      = {PosixPath ''/'' [''data'', ''P1'', ''cryoatom_P1_J1'', ''out''],
         PosixPath ''/'' [''data'', ''P1'', ''cryoatom_P1_J1'', ''input_map.mrc''],
         PosixPath ''/'' [''data'', ''P1'', ''cryoatom_P1_J1'', ''input.fasta''],
         PosixPath ''/'' [''data'', ''P1'', ''cryoatom_P1_J1''],
         PosixPath ''/'' [''data'', ''P1'', ''J1'', ''map.mrc''],
         PosixPath ''/'' [''data'', ''s.fa''],
         PosixPath ''/'' [''opt'', ''run_cryoatom.py''],
         PosixPath ''/'' [''opt'', ''run_cryoatom_auto.py'']}"
    by (simp add: demo_eval)
  have h: "credentials ?w \<and> auto_select_gpu demo_lib ?w demo_args demo_state = (2, ?st1)
      \<and> joinpath (script_dir ?w) ''run_cryoatom.py'' \<in> files ?st1
      \<and> run_cryoatom_main ?w (rc_args demo_args 2) (logger INFO (Calling (rc_args demo_args 2)) ?st1)
           = (Raised (CalledProcessError 137), snd ?m)
      \<and> (0::int) < 137 \<and> (137::int) < 256"
    using f by (simp add: demo_select_gpu demo_args_simps prod_eq_iff)
       (simp add: demo_world_def demo_state_def demo_paths)
  have "run_cryoatom_auto demo_lib ?w demo_args demo_state
      = (137, logger ERROR (SubprocessFailed 137) (logger ERROR (ToolFailed 137) (snd ?m)))"
    by (rule tool_failure_exit_code [where w = ?w and lib = demo_lib and b = demo_args
        and st = demo_state and g = 2 and ?st1.0 = ?st1 and ?st2.0 = "snd ?m" and c = 137,
        THEN conjunct2, THEN conjunct1, rule_format, OF h])
  then show ?thesis
    by (simp add: fs)
qed

section \<open>Publishing the model\<close>

lemma new_events_subset: "e \<in> set (new_events st st') \<Longrightarrow> e \<in> set (events st')"
  by (auto simp: new_events_def dest: in_set_dropD)

lemma run_cryoatom_auto_registration:
  assumes "registration_reached lib w a st g cs proj jb st2"
  shows "run_cryoatom_auto_main lib w a st = auto_register w a g st2"
    and "credentials w"
    and "login w RunCryoatomAuto = Some cs"
    and "find_project cs (project a) = Some proj"
    and "find_job cs (project a) (job a) = Some jb"
  using assms
  by (auto simp: registration_reached_def run_cryoatom_auto_main_def Let_def)

lemma auto_publish_cases:
  "auto_publish w cs proj jb g out_cif st =
     (if \<not> mkdir_ok w (publish_dir jb) then
        (Raised OtherError, st\<lparr>events := events st @ [Mkdir (publish_dir jb)]\<rparr>)
      else if \<not> (out_cif \<in> insert (publish_dir jb) (files st)
                   \<and> copy_ok w out_cif (publish_file proj jb)) then
        (Raised OtherError,
         st\<lparr>files := insert (publish_dir jb) (files st),
            events := events st @ [Mkdir (publish_dir jb), Copy out_cif (publish_file proj jb)]\<rparr>)
      else
        (Ok (),
         st\<lparr>files := insert (publish_file proj jb) (insert (publish_dir jb) (files st)),
            events := events st
              @ [Mkdir (publish_dir jb), Copy out_cif (publish_file proj jb),
                 Log INFO (CopiedBack (publish_file proj jb))]
              @ (if job_log_ok cs jb
                 then [JobLog (uid jb) g (publish_file proj jb), Log INFO JobLogWritten]
                 else [Log WARNING JobLogFailed])
              @ [Log INFO (AllDone (publish_file proj jb))]\<rparr>))"
  by (simp add: auto_publish_def publish_dir_def publish_file_def mkdir_cases copy2_cases
        Let_def emit_def logger_def del: joinpath_name)

text \<open>
  C9. Once \<open>run_cryoatom_auto.py\<close> has found the model \<open>out/out.cif\<close>, it makes the
  directory \<open>cryoatom\<close> in the job directory and copies the model there. If both
  succeed the process exits with status 0 and the copy exists, whether or not the line
  for the job's log could be written: a failure of \<open>job.log\<close> only adds a warning. If
  the copy fails, or the directory cannot be made, the process exits with status 1.
\<close>

theorem publish_outcomes:
  fixes lib :: "('f::{linorder,one}) builtins"
  defines "out_cif a proj jb \<equiv>
     auto_out_cif (auto_work_dir (out_dir a) (safe_dir proj) (uid proj) (uid jb))"
  shows
  "(registration_reached lib w a st g cs proj jb st2 \<and> out_cif a proj jb \<in> files st2
      \<and> mkdir_ok w (publish_dir jb) \<and> copy_ok w (out_cif a proj jb) (publish_file proj jb)
      \<longrightarrow> fst (run_cryoatom_auto lib w a st) = 0
          \<and> files (snd (run_cryoatom_auto lib w a st))
              = insert (publish_file proj jb) (insert (publish_dir jb) (files st2))
          \<and> new_events st2 (snd (run_cryoatom_auto lib w a st))
              = [Log INFO (FoundOutCif (out_cif a proj jb)), Mkdir (publish_dir jb),
                 Copy (out_cif a proj jb) (publish_file proj jb),
                 Log INFO (CopiedBack (publish_file proj jb))]
                @ (if job_log_ok cs jb
                   then [JobLog (uid jb) g (publish_file proj jb), Log INFO JobLogWritten]
                   else [Log WARNING JobLogFailed])
                @ [Log INFO (AllDone (publish_file proj jb))])
   \<and> (registration_reached lib w a st g cs proj jb st2 \<and> out_cif a proj jb \<in> files st2
      \<and> mkdir_ok w (publish_dir jb) \<and> \<not> copy_ok w (out_cif a proj jb) (publish_file proj jb)
      \<longrightarrow> fst (run_cryoatom_auto lib w a st) = 1
          \<and> files (snd (run_cryoatom_auto lib w a st)) = insert (publish_dir jb) (files st2)
          \<and> new_events st2 (snd (run_cryoatom_auto lib w a st))
              = [Log INFO (FoundOutCif (out_cif a proj jb)), Mkdir (publish_dir jb),
                 Copy (out_cif a proj jb) (publish_file proj jb)])
   \<and> (registration_reached lib w a st g cs proj jb st2 \<and> out_cif a proj jb \<in> files st2
      \<and> \<not> mkdir_ok w (publish_dir jb)
      \<longrightarrow> fst (run_cryoatom_auto lib w a st) = 1
          \<and> files (snd (run_cryoatom_auto lib w a st)) = files st2
          \<and> new_events st2 (snd (run_cryoatom_auto lib w a st))
              = [Log INFO (FoundOutCif (out_cif a proj jb)), Mkdir (publish_dir jb)])"
proof -
  have reg: "run_cryoatom_auto lib w a st
      = (case auto_publish w cs proj jb g (out_cif a proj jb)
                (logger INFO (FoundOutCif (out_cif a proj jb)) st2) of
           (Ok _, s) \<Rightarrow> (0, s)
         | (SysExit c, s) \<Rightarrow> (exit_status c, s)
         | (Raised _, s) \<Rightarrow> (1, s))"
    if r: "registration_reached lib w a st g cs proj jb st2" and o: "out_cif a proj jb \<in> files st2"
  proof -
    note f = run_cryoatom_auto_registration [OF r]
    have "auto_register w a g st2
        = auto_publish w cs proj jb g (out_cif a proj jb)
            (logger INFO (FoundOutCif (out_cif a proj jb)) st2)"
      using f(3,4,5) o by (simp add: auto_register_def out_cif_def Let_def)
    with f(1,2) show ?thesis
      by (simp add: run_cryoatom_auto_def)
  qed
  show ?thesis
    by (intro conjI impI; elim conjE)
       (simp_all add: reg auto_publish_cases new_events_def)
qed

lemma demo_like_select_gpu:
  "cuda_visible_devices w = None \<Longrightarrow> nvidia_smi w = Some demo_listing \<Longrightarrow> gpu a = None
     \<Longrightarrow> auto_select_gpu demo_lib w a st
           = (2, st\<lparr>events := events st @ [Log INFO (Gpu (GpuSelected 2))]\<rparr>)"
  by (simp add: auto_select_gpu_def demo_pick)

lemma demo_publish_paths:
  "publish_dir \<lparr>uid = ''J1'', dir = ''/data/P1/J1''\<rparr>
     = PosixPath ''/'' [''data'', ''P1'', ''J1'', ''cryoatom'']"
  "publish_file \<lparr>uid = ''P1'', dir = ''/data/P1''\<rparr> \<lparr>uid = ''J1'', dir = ''/data/P1/J1''\<rparr>
     = PosixPath ''/'' [''data'', ''P1'', ''J1'', ''cryoatom'', ''P1_J1_cryoatom.cif'']"
  "auto_out_cif (auto_work_dir (out_dir demo_args) (safe_dir \<lparr>uid = ''P1'', dir = ''/data/P1''\<rparr>)
       ''P1'' ''J1'')
     = PosixPath ''/'' [''data'', ''P1'', ''cryoatom_P1_J1'', ''out'', ''out.cif'']"
  by (simp_all add: publish_dir_def publish_file_def safe_dir_def demo_paths auto_out_cif_def
        auto_work_dir_def demo_args_def)

theorem publish_outcomes_witness:
  "fst (run_cryoatom_auto demo_lib
          (demo_world\<lparr>login := (\<lambda>s. Some (demo_session\<lparr>job_log_ok := (\<lambda>jb. False)\<rparr>))\<rparr>)
          demo_args demo_state) = 0
   \<and> PosixPath ''/'' [''data'', ''P1'', ''J1'', ''cryoatom'', ''P1_J1_cryoatom.cif'']
       \<in> files (snd (run_cryoatom_auto demo_lib
          (demo_world\<lparr>login := (\<lambda>s. Some (demo_session\<lparr>job_log_ok := (\<lambda>jb. False)\<rparr>))\<rparr>)
          demo_args demo_state))
   \<and> Log WARNING JobLogFailed
       \<in> set (events (snd (run_cryoatom_auto demo_lib
          (demo_world\<lparr>login := (\<lambda>s. Some (demo_session\<lparr>job_log_ok := (\<lambda>jb. False)\<rparr>))\<rparr>)
          demo_args demo_state)))
   \<and> fst (run_cryoatom_auto demo_lib
          (demo_world\<lparr>copy_ok := (\<lambda>src dst.
             dst \<noteq> PosixPath ''/'' [''data'', ''P1'', ''J1'', ''cryoatom'', ''P1_J1_cryoatom.cif''])\<rparr>)
          demo_args demo_state) = 1
   \<and> PosixPath ''/'' [''data'', ''P1'', ''J1'', ''cryoatom'', ''P1_J1_cryoatom.cif'']
       \<notin> files (snd (run_cryoatom_auto demo_lib
          (demo_world\<lparr>copy_ok := (\<lambda>src dst.
             dst \<noteq> PosixPath ''/'' [''data'', ''P1'', ''J1'', ''cryoatom'', ''P1_J1_cryoatom.cif''])\<rparr>)
          demo_args demo_state))"
proof -
  let ?cs1 = "demo_session\<lparr>job_log_ok := (\<lambda>jb. False)\<rparr>"
  let ?w1 = "demo_world\<lparr>login := (\<lambda>s. Some ?cs1)\<rparr>"
  let ?D = "PosixPath ''/'' [''data'', ''P1'', ''J1'', ''cryoatom'', ''P1_J1_cryoatom.cif'']"
  let ?w2 = "demo_world\<lparr>copy_ok := (\<lambda>src dst. dst \<noteq> ?D)\<rparr>"
  let ?P = "\<lparr>uid = ''P1'', dir = ''/data/P1''\<rparr>"
  let ?J = "\<lparr>uid = ''J1'', dir = ''/data/P1/J1''\<rparr>"
  let ?C = "PosixPath ''/'' [''data'', ''P1'', ''cryoatom_P1_J1'', ''out'', ''out.cif'']"
  let ?st1 = "demo_state\<lparr>events := events demo_state @ [Log INFO (Gpu (GpuSelected 2))]\<rparr>"
  let ?a = "demo_args\<lparr>workspace := [], gpu := Some 2\<rparr>"
  let ?r1 = "run_cryoatom ?w1 ?a (logger INFO (Calling ?a) ?st1)"
  let ?r2 = "run_cryoatom ?w2 ?a (logger INFO (Calling ?a) ?st1)"
  let ?fs = "{?C,
         PosixPath ''/'' [''data'', ''P1'', ''cryoatom_P1_J1'', ''out''],
         PosixPath ''/'' [''data'', ''P1'', ''cryoatom_P1_J1'', ''input_map.mrc''],
         PosixPath ''/'' [''data'', ''P1'', ''cryoatom_P1_J1'', ''input.fasta''],
         PosixPath ''/'' [''data'', ''P1'', ''cryoatom_P1_J1''],
         PosixPath ''/'' [''data'', ''P1'', ''J1'', ''map.mrc''],
         PosixPath ''/'' [''data'', ''s.fa''],
         PosixPath ''/'' [''opt'', ''run_cryoatom.py''],
         PosixPath ''/'' [''opt'', ''run_cryoatom_auto.py'']}"
  have e1: "fst ?r1 = 0" by (simp add: demo_eval)
  have f1: "files (snd ?r1) = ?fs" by (simp add: demo_eval)
  have e2: "fst ?r2 = 0" by (simp add: demo_eval)
  have f2: "files (snd ?r2) = ?fs" by (simp add: demo_eval)
  have g1: "auto_select_gpu demo_lib ?w1 demo_args demo_state = (2, ?st1)"
    by (rule demo_like_select_gpu) (simp_all add: demo_world_def demo_args_def)
  have g2: "auto_select_gpu demo_lib ?w2 demo_args demo_state = (2, ?st1)"
    by (rule demo_like_select_gpu) (simp_all add: demo_world_def demo_args_def)
  have s: "joinpath (script_dir ?w1) ''run_cryoatom.py'' \<in> files ?st1"
    "joinpath (script_dir ?w2) ''run_cryoatom.py'' \<in> files ?st1"
    by (simp_all add: demo_world_def demo_state_def demo_paths)
  have run1: "run_cryoatom ?w1 (rc_args demo_args 2)
        (logger INFO (Calling (rc_args demo_args 2)) ?st1) = (0, snd ?r1)"
    using e1 by (simp add: demo_args_simps prod_eq_iff)
  have ex1: "\<exists>st1. auto_select_gpu demo_lib ?w1 demo_args demo_state = (2, st1)
      \<and> joinpath (script_dir ?w1) ''run_cryoatom.py'' \<in> files st1
      \<and> run_cryoatom ?w1 (rc_args demo_args 2) (logger INFO (Calling (rc_args demo_args 2)) st1)
          = (0, snd ?r1)"
    by (rule exI [of _ ?st1], intro conjI) (rule g1, rule s(1), rule run1)
  have env1: "credentials ?w1" "login ?w1 RunCryoatomAuto = Some ?cs1"
    "find_project ?cs1 (project demo_args) = Some ?P"
    "find_job ?cs1 (project demo_args) (job demo_args) = Some ?J"
    by (simp_all add: demo_world_def demo_session_def demo_args_def)
  have reg1: "registration_reached demo_lib ?w1 demo_args demo_state 2 ?cs1 ?P ?J (snd ?r1)"
    unfolding registration_reached_def
    by (intro conjI) (rule env1(1), rule ex1, rule env1(2), rule env1(3), rule env1(4))
  have run2: "run_cryoatom ?w2 (rc_args demo_args 2)
        (logger INFO (Calling (rc_args demo_args 2)) ?st1) = (0, snd ?r2)"
    using e2 by (simp add: demo_args_simps prod_eq_iff)
  have ex2: "\<exists>st1. auto_select_gpu demo_lib ?w2 demo_args demo_state = (2, st1)
      \<and> joinpath (script_dir ?w2) ''run_cryoatom.py'' \<in> files st1
      \<and> run_cryoatom ?w2 (rc_args demo_args 2) (logger INFO (Calling (rc_args demo_args 2)) st1)
          = (0, snd ?r2)"
    by (rule exI [of _ ?st1], intro conjI) (rule g2, rule s(2), rule run2)
  have env2: "credentials ?w2" "login ?w2 RunCryoatomAuto = Some demo_session"
    "find_project demo_session (project demo_args) = Some ?P"
    "find_job demo_session (project demo_args) (job demo_args) = Some ?J"
    by (simp_all add: demo_world_def demo_session_def demo_args_def)
  have reg2: "registration_reached demo_lib ?w2 demo_args demo_state 2 demo_session ?P ?J (snd ?r2)"
    unfolding registration_reached_def
    by (intro conjI) (rule env2(1), rule ex2, rule env2(2), rule env2(3), rule env2(4))
  have o1: "auto_out_cif (auto_work_dir (out_dir demo_args) (safe_dir ?P) (uid ?P) (uid ?J))
          \<in> files (snd ?r1)"
    unfolding f1 by (simp add: demo_publish_paths)
  have o2: "auto_out_cif (auto_work_dir (out_dir demo_args) (safe_dir ?P) (uid ?P) (uid ?J))
          \<in> files (snd ?r2)"
    unfolding f2 by (simp add: demo_publish_paths)
  have m1: "mkdir_ok ?w1 (publish_dir ?J)" by (simp add: demo_world_def)
  have m2: "mkdir_ok ?w2 (publish_dir ?J)" by (simp add: demo_world_def)
  have k1: "copy_ok ?w1 (auto_out_cif (auto_work_dir (out_dir demo_args) (safe_dir ?P) (uid ?P) (uid ?J)))
          (publish_file ?P ?J)"
    by (simp add: demo_world_def)
  have k2: "\<not> copy_ok ?w2 (auto_out_cif (auto_work_dir (out_dir demo_args) (safe_dir ?P) (uid ?P) (uid ?J)))
          (publish_file ?P ?J)"
    by (simp add: demo_world_def demo_publish_paths)
  note t1 = publish_outcomes [where lib = demo_lib and w = ?w1 and a = demo_args
      and st = demo_state and g = 2 and cs = ?cs1 and proj = ?P and jb = ?J and ?st2.0 = "snd ?r1",
      THEN conjunct1, rule_format, OF conjI [OF reg1 conjI [OF o1 conjI [OF m1 k1]]]]
  note t2 = publish_outcomes [where lib = demo_lib and w = ?w2 and a = demo_args
      and st = demo_state and g = 2 and cs = demo_session and proj = ?P and jb = ?J
      and ?st2.0 = "snd ?r2",
      THEN conjunct2, THEN conjunct1, rule_format, OF conjI [OF reg2 conjI [OF o2 conjI [OF m2 k2]]]]
  have a1: "fst (run_cryoatom_auto demo_lib ?w1 demo_args demo_state) = 0"
    using t1 by (rule conjunct1)
  have a2: "?D \<in> files (snd (run_cryoatom_auto demo_lib ?w1 demo_args demo_state))"
    unfolding t1 [THEN conjunct2, THEN conjunct1] by (simp add: demo_publish_paths)
  have jl: "\<not> job_log_ok ?cs1 ?J" by simp
  have "Log WARNING JobLogFailed
      \<in> set (new_events (snd ?r1) (snd (run_cryoatom_auto demo_lib ?w1 demo_args demo_state)))"
    unfolding t1 [THEN conjunct2, THEN conjunct2] using jl by simp
  then have a3: "Log WARNING JobLogFailed
      \<in> set (events (snd (run_cryoatom_auto demo_lib ?w1 demo_args demo_state)))"
    by (rule new_events_subset)
  have a4: "fst (run_cryoatom_auto demo_lib ?w2 demo_args demo_state) = 1"
    using t2 by (rule conjunct1)
  have a5: "?D \<notin> files (snd (run_cryoatom_auto demo_lib ?w2 demo_args demo_state))"
    unfolding t2 [THEN conjunct2, THEN conjunct1] f2 by (simp add: demo_publish_paths)
  show ?thesis
    by (intro conjI) (rule a1, rule a2, rule a3, rule a4, rule a5)
qed

section \<open>Resolving the model file\<close>

lemmas auto_eval =
  run_cryoatom_auto_def run_cryoatom_auto_main_def auto_select_gpu_def auto_register_def
  auto_publish_def auto_work_dir_def auto_out_cif_def rc_args_def demo_pick

lemmas ext_eval =
  cryoatom_external_job_def cryoatom_external_job_main_def ext_body_def ext_resolve_def
  ext_work_dir_def ext_out_cif_def ext_dest_file_def auto_args_def

text \<open>
  C2, as stated, fails. In an environment where the tool returns 0 and writes no
  \<open>out.cif\<close>, the tool has run successfully (the summary after it is logged) and
  neither the published copy nor \<open>out/out.cif\<close> exists; \<open>run_cryoatom_auto.py\<close>
  logs an error and exits with status 1, and \<open>cryoatom_external_job.py\<close>, which
  wraps it, exits with status 1 as well.
\<close>

theorem missing_model_is_fatal:
  "Log INFO (Summary (PosixPath ''/'' [''data'', ''P1'', ''cryoatom_P1_J1'', ''out'', ''out.cif'']) False
                     (PosixPath ''/'' [''data'', ''P1'', ''cryoatom_P1_J1'', ''out'', ''out_raw.cif'']) False)
     \<in> set (events (snd (run_cryoatom_auto demo_lib silent_world demo_args demo_state)))
   \<and> PosixPath ''/'' [''data'', ''P1'', ''cryoatom_P1_J1'', ''out'', ''out.cif'']
       \<notin> files (snd (run_cryoatom_auto demo_lib silent_world demo_args demo_state))
   \<and> PosixPath ''/'' [''data'', ''P1'', ''J1'', ''cryoatom'', ''P1_J1_cryoatom.cif'']
       \<notin> files (snd (run_cryoatom_auto demo_lib silent_world demo_args demo_state))
   \<and> last (events (snd (run_cryoatom_auto demo_lib silent_world demo_args demo_state)))
       = Log ERROR (OutCifNotFound
           (PosixPath ''/'' [''data'', ''P1'', ''cryoatom_P1_J1'', ''out'', ''out.cif'']))
   \<and> fst (run_cryoatom_auto demo_lib silent_world demo_args demo_state) = 1
   \<and> fst (cryoatom_external_job demo_lib silent_world demo_args demo_state) = 1"
proof -
  have e: "events (snd (run_cryoatom_auto demo_lib silent_world demo_args demo_state))
      = [Log INFO (Gpu (GpuSelected 2)),
         Log INFO (Calling (demo_args\<lparr>workspace := [], gpu := Some 2\<rparr>)),
         Log INFO Connecting, Log INFO (UsingJob ''P1'' ''J1''),
         Log INFO (RowCount 1), Index 1 0, Log INFO (UsingRow 0),
         Log INFO (ChoseField ''map_sharp/path'' ''J1/map.mrc''),
         Log INFO (ResolvedMap (PosixPath ''/'' [''data'', ''P1'', ''J1'', ''map.mrc''])),
         Mkdir (PosixPath ''/'' [''data'', ''P1'', ''cryoatom_P1_J1'']),
         Log INFO (WorkDir (PosixPath ''/'' [''data'', ''P1'', ''cryoatom_P1_J1''])),
         Copy (PosixPath ''/'' [''data'', ''s.fa''])
           (PosixPath ''/'' [''data'', ''P1'', ''cryoatom_P1_J1'', ''input.fasta'']),
         Log INFO (CopiedFasta (PosixPath ''/'' [''data'', ''P1'', ''cryoatom_P1_J1'', ''input.fasta''])),
         Copy (PosixPath ''/'' [''data'', ''P1'', ''J1'', ''map.mrc''])
           (PosixPath ''/'' [''data'', ''P1'', ''cryoatom_P1_J1'', ''input_map.mrc'']),
         Log INFO (CopiedMap (PosixPath ''/'' [''data'', ''P1'', ''cryoatom_P1_J1'', ''input_map.mrc''])),
         Mkdir (PosixPath ''/'' [''data'', ''P1'', ''cryoatom_P1_J1'', ''out'']),
         Log INFO (OutputDir (PosixPath ''/'' [''data'', ''P1'', ''cryoatom_P1_J1'', ''out''])),
         Log INFO (WillRun
           \<lparr>seq_arg = ''/data/P1/cryoatom_P1_J1/input.fasta'',
             vol_arg = ''/data/P1/cryoatom_P1_J1/input_map.mrc'',
             out_arg = ''/data/P1/cryoatom_P1_J1/out'', dev_arg = Some 2,
             cwd = ''/data/P1/cryoatom_P1_J1''\<rparr>),
         RunTool
           \<lparr>seq_arg = ''/data/P1/cryoatom_P1_J1/input.fasta'',
             vol_arg = ''/data/P1/cryoatom_P1_J1/input_map.mrc'',
             out_arg = ''/data/P1/cryoatom_P1_J1/out'', dev_arg = Some 2,
             cwd = ''/data/P1/cryoatom_P1_J1''\<rparr>,
         Log INFO (Summary
           (PosixPath ''/'' [''data'', ''P1'', ''cryoatom_P1_J1'', ''out'', ''out.cif'']) False
           (PosixPath ''/'' [''data'', ''P1'', ''cryoatom_P1_J1'', ''out'', ''out_raw.cif'']) False),
         Log ERROR (OutCifNotFound
           (PosixPath ''/'' [''data'', ''P1'', ''cryoatom_P1_J1'', ''out'', ''out.cif'']))]"
    by (simp add: silent_world_def auto_eval demo_eval)
  have f: "files (snd (run_cryoatom_auto demo_lib silent_world demo_args demo_state))
      = {PosixPath ''/'' [''data'', ''P1'', ''cryoatom_P1_J1'', ''out''],
         PosixPath ''/'' [''data'', ''P1'', ''cryoatom_P1_J1'', ''input_map.mrc''],
         PosixPath ''/'' [''data'', ''P1'', ''cryoatom_P1_J1'', ''input.fasta''],
         PosixPath ''/'' [''data'', ''P1'', ''cryoatom_P1_J1''],
         PosixPath ''/'' [''data'', ''P1'', ''J1'', ''map.mrc''],
         PosixPath ''/'' [''data'', ''s.fa''],
         PosixPath ''/'' [''opt'', ''run_cryoatom.py''],
         PosixPath ''/'' [''opt'', ''run_cryoatom_auto.py'']}"
    by (simp add: silent_world_def auto_eval demo_eval)
  have x: "fst (run_cryoatom_auto demo_lib silent_world demo_args demo_state) = 1"
    by (simp add: silent_world_def auto_eval demo_eval)
  have y: "fst (cryoatom_external_job demo_lib silent_world demo_args demo_state) = 1"
    by (simp add: silent_world_def ext_eval auto_eval demo_eval)
  show ?thesis
    unfolding e f using x y by simp
qed

lemma cryoatom_external_job_resolution:
  assumes "resolution_reached lib w a st cs proj src_job ej st2"
  shows "cryoatom_external_job lib w a st
     = (case ext_resolve a proj src_job
               (emit (EjLog EjSubprocessOk) (emit (EjLog (EjForwarded INFO)) st2)) of
          (Ok None, s) \<Rightarrow> (0, s)
        | (Ok (Some model_path), s) \<Rightarrow> (0, logger INFO (ExternalJobDone ej) s)
        | (SysExit c, s) \<Rightarrow> (exit_status c, s)
        | (Raised e, s) \<Rightarrow> (1, logger ERROR ExternalJobFailed s))"
proof -
  from assms have h: "credentials w" "login w ExternalJob = Some cs"
    "find_project cs (project a) = Some proj" "find_job cs (project a) (job a) = Some src_job"
    "create_external_job cs proj (workspace a) = Some ej"
    "joinpath (script_dir w) ''run_cryoatom_auto.py'' \<in> files st" "ej_log_ok cs"
    and r: "run_cryoatom_auto lib w (auto_args a)
          (emit (EjLog (EjCommand (auto_args a))) (emit (EjLog (EjStart (job a)))
            (logger INFO (WillExecute (auto_args a))
              (logger INFO (CreatedExternalJob ej) (emit (CreateExternalJob ej)
                (logger INFO (UsingWorkspace (workspace a))
                  (logger INFO (SourceJob (uid src_job))
                    (logger INFO (FoundProject (uid proj))
                      (logger INFO Connecting st)))))))))
         = (0, st2)"
    by (simp_all add: resolution_reached_def del: joinpath_name)
  have b: "ext_body lib w cs a proj src_job
          (logger INFO (WillExecute (auto_args a))
              (logger INFO (CreatedExternalJob ej) (emit (CreateExternalJob ej)
                (logger INFO (UsingWorkspace (workspace a))
                  (logger INFO (SourceJob (uid src_job))
                    (logger INFO (FoundProject (uid proj))
                      (logger INFO Connecting st)))))))
      = ext_resolve a proj src_job
               (emit (EjLog EjSubprocessOk) (emit (EjLog (EjForwarded INFO)) st2))"
    using h(7) r by (simp add: ext_body_def Let_def)
  obtain x s where xs: "ext_resolve a proj src_job
               (emit (EjLog EjSubprocessOk) (emit (EjLog (EjForwarded INFO)) st2)) = (x, s)"
    by (cases "ext_resolve a proj src_job
               (emit (EjLog EjSubprocessOk) (emit (EjLog (EjForwarded INFO)) st2))")
  have m: "cryoatom_external_job_main lib w a st
      = (case (x, s) of
          (Raised e, st4) \<Rightarrow> (SysExit 1, logger ERROR ExternalJobFailed st4)
        | (SysExit c, st4) \<Rightarrow> (SysExit c, st4)
        | (Ok None, st4) \<Rightarrow> (Ok (), st4)
        | (Ok (Some model_path), st4) \<Rightarrow> (Ok (), logger INFO (ExternalJobDone ej) st4))"
    using h(2-6) h(6) [simplified] b xs
    by (simp add: cryoatom_external_job_main_def Let_def)
  show ?thesis
    unfolding xs using h(1) m
    by (cases x; simp add: cryoatom_external_job_def split: option.splits)
qed

text \<open>
  C2, amended. After its subprocess \<open>run_cryoatom_auto.py\<close> has ended with status
  0, \<open>cryoatom_external_job.py\<close> takes the published copy in the job directory when
  it exists, and otherwise \<open>out/out.cif\<close> in the working directory when that exists;
  when neither exists it writes a line that starts with \<open>[WARN]\<close> to the log of the
  external job (at level info) and a closing line, and the process ends with status 0
  and no model. \<open>run_cryoatom_auto.py\<close> itself looks only for \<open>out/out.cif\<close>
  after a successful run of \<open>run_cryoatom.py\<close>: when the file does not exist it logs
  an error and exits with status 1, and nothing is published.
\<close>

theorem artifact_resolution:
  fixes lib :: "('f::{linorder,one}) builtins"
  defines "raw a proj src_job \<equiv>
     ext_out_cif (ext_work_dir (out_dir a) (safe_dir proj) (uid proj) (uid src_job))"
  shows
  "(ext_dest_file proj src_job \<in> files st
      \<longrightarrow> ext_resolve a proj src_job st
            = (Ok (Some (ext_dest_file proj src_job)),
               emit (EjLog EjComplete) (emit (EjLog (EjMounted (ext_dest_file proj src_job)))
                 (emit (EjLog (EjUsingCopy (ext_dest_file proj src_job))) st))))
   \<and> (ext_dest_file proj src_job \<notin> files st \<and> raw a proj src_job \<in> files st
      \<longrightarrow> ext_resolve a proj src_job st
            = (Ok (Some (raw a proj src_job)),
               emit (EjLog EjComplete) (emit (EjLog (EjMounted (raw a proj src_job)))
                 (emit (EjLog (EjUsingWorkDir (raw a proj src_job))) st))))
   \<and> (ext_dest_file proj src_job \<notin> files st \<and> raw a proj src_job \<notin> files st
      \<longrightarrow> ext_resolve a proj src_job st
            = (Ok None,
               emit (EjLog EjEndNoOutput)
                 (emit (EjLog (EjWarnNoModel (ext_dest_file proj src_job) (raw a proj src_job))) st)))
   \<and> (resolution_reached lib w a st cs proj src_job ej st2
        \<and> ext_dest_file proj src_job \<notin> files st2 \<and> raw a proj src_job \<notin> files st2
      \<longrightarrow> cryoatom_external_job lib w a st
            = (0, emit (EjLog EjEndNoOutput)
                    (emit (EjLog (EjWarnNoModel (ext_dest_file proj src_job) (raw a proj src_job)))
                      (emit (EjLog EjSubprocessOk) (emit (EjLog (EjForwarded INFO)) st2)))))
   \<and> (registration_reached lib w' a' st' g cs' proj' jb st3
        \<and> auto_out_cif (auto_work_dir (out_dir a') (safe_dir proj') (uid proj') (uid jb))
            \<notin> files st3
      \<longrightarrow> run_cryoatom_auto lib w' a' st'
            = (1, logger ERROR
                    (OutCifNotFound
                       (auto_out_cif (auto_work_dir (out_dir a') (safe_dir proj') (uid proj') (uid jb))))
                    st3))"
proof -
  have c1: "ext_dest_file proj src_job \<in> files st
      \<longrightarrow> ext_resolve a proj src_job st
            = (Ok (Some (ext_dest_file proj src_job)),
               emit (EjLog EjComplete) (emit (EjLog (EjMounted (ext_dest_file proj src_job)))
                 (emit (EjLog (EjUsingCopy (ext_dest_file proj src_job))) st)))"
    by (simp add: ext_resolve_def Let_def)
  have c2: "ext_dest_file proj src_job \<notin> files st \<and> raw a proj src_job \<in> files st
      \<longrightarrow> ext_resolve a proj src_job st
            = (Ok (Some (raw a proj src_job)),
               emit (EjLog EjComplete) (emit (EjLog (EjMounted (raw a proj src_job)))
                 (emit (EjLog (EjUsingWorkDir (raw a proj src_job))) st)))"
    by (simp add: ext_resolve_def raw_def Let_def)
  have c3: "ext_dest_file proj src_job \<notin> files st \<and> raw a proj src_job \<notin> files st
      \<longrightarrow> ext_resolve a proj src_job st
            = (Ok None,
               emit (EjLog EjEndNoOutput)
                 (emit (EjLog (EjWarnNoModel (ext_dest_file proj src_job) (raw a proj src_job))) st))"
    for st
    by (simp add: ext_resolve_def raw_def Let_def)
  have c4: "resolution_reached lib w a st cs proj src_job ej st2
        \<and> ext_dest_file proj src_job \<notin> files st2 \<and> raw a proj src_job \<notin> files st2
      \<longrightarrow> cryoatom_external_job lib w a st
            = (0, emit (EjLog EjEndNoOutput)
                    (emit (EjLog (EjWarnNoModel (ext_dest_file proj src_job) (raw a proj src_job)))
                      (emit (EjLog EjSubprocessOk) (emit (EjLog (EjForwarded INFO)) st2))))"
  proof
    assume h: "resolution_reached lib w a st cs proj src_job ej st2
        \<and> ext_dest_file proj src_job \<notin> files st2 \<and> raw a proj src_job \<notin> files st2"
    let ?s = "emit (EjLog EjSubprocessOk) (emit (EjLog (EjForwarded INFO)) st2)"
    have "ext_dest_file proj src_job \<notin> files ?s \<and> raw a proj src_job \<notin> files ?s"
      using h by simp
    with c3 [of ?s] have "ext_resolve a proj src_job ?s
        = (Ok None,
           emit (EjLog EjEndNoOutput)
             (emit (EjLog (EjWarnNoModel (ext_dest_file proj src_job) (raw a proj src_job))) ?s))"
      by blast
    with cryoatom_external_job_resolution [of lib w a st cs proj src_job ej st2] h
    show "cryoatom_external_job lib w a st
            = (0, emit (EjLog EjEndNoOutput)
                    (emit (EjLog (EjWarnNoModel (ext_dest_file proj src_job) (raw a proj src_job))) ?s))"
      by simp
  qed
  have c5: "registration_reached lib w' a' st' g cs' proj' jb st3
        \<and> auto_out_cif (auto_work_dir (out_dir a') (safe_dir proj') (uid proj') (uid jb))
            \<notin> files st3
      \<longrightarrow> run_cryoatom_auto lib w' a' st'
            = (1, logger ERROR
                    (OutCifNotFound
                       (auto_out_cif (auto_work_dir (out_dir a') (safe_dir proj') (uid proj') (uid jb))))
                    st3)"
  proof
    assume h: "registration_reached lib w' a' st' g cs' proj' jb st3
        \<and> auto_out_cif (auto_work_dir (out_dir a') (safe_dir proj') (uid proj') (uid jb))
            \<notin> files st3"
    then have r: "registration_reached lib w' a' st' g cs' proj' jb st3" by simp
    note f = run_cryoatom_auto_registration [OF r]
    have "auto_register w' a' g st3
        = (SysExit 1, logger ERROR
                    (OutCifNotFound
                       (auto_out_cif (auto_work_dir (out_dir a') (safe_dir proj') (uid proj') (uid jb))))
                    st3)"
      using f(3,4,5) h by (simp add: auto_register_def Let_def)
    with f(1,2) show "run_cryoatom_auto lib w' a' st'
            = (1, logger ERROR
                    (OutCifNotFound
                       (auto_out_cif (auto_work_dir (out_dir a') (safe_dir proj') (uid proj') (uid jb))))
                    st3)"
      by (simp add: run_cryoatom_auto_def)
  qed
  show ?thesis
    by (intro conjI) (rule c1, rule c2, rule c3, rule c4, rule c5)
qed

theorem artifact_resolution_witness:
  "ext_resolve demo_args \<lparr>uid = ''P1'', dir = ''/data/P1''\<rparr> \<lparr>uid = ''J1'', dir = ''/data/P1/J1''\<rparr>
      demo_state
     = (Ok None,
        emit (EjLog EjEndNoOutput)
          (emit (EjLog (EjWarnNoModel
             (PosixPath ''/'' [''data'', ''P1'', ''J1'', ''cryoatom'', ''P1_J1_cryoatom.cif''])
             (PosixPath ''/'' [''data'', ''P1'', ''cryoatom_P1_J1'', ''out'', ''out.cif''])))
           demo_state))
   \<and> fst (cryoatom_external_job demo_lib remount_world demo_args demo_state) = 0
   \<and> last (events (snd (cryoatom_external_job demo_lib remount_world demo_args demo_state)))
       = EjLog EjEndNoOutput
   \<and> fst (run_cryoatom_auto demo_lib silent_world demo_args demo_state) = 1"
proof -
  let ?P = "\<lparr>uid = ''P1'', dir = ''/data/P1''\<rparr>"
  let ?J = "\<lparr>uid = ''J1'', dir = ''/data/P1/J1''\<rparr>"
  let ?P' = "\<lparr>uid = ''P1'', dir = ''/mnt/P1''\<rparr>"
  let ?J' = "\<lparr>uid = ''J1'', dir = ''/mnt/P1/J1''\<rparr>"
  let ?cs' = "demo_session\<lparr>find_project := (\<lambda>p. Some ?P'), find_job := (\<lambda>p j. Some ?J')\<rparr>"
  let ?D = "PosixPath ''/'' [''data'', ''P1'', ''J1'', ''cryoatom'', ''P1_J1_cryoatom.cif'']"
  let ?C = "PosixPath ''/'' [''data'', ''P1'', ''cryoatom_P1_J1'', ''out'', ''out.cif'']"
  let ?D' = "PosixPath ''/'' [''mnt'', ''P1'', ''J1'', ''cryoatom'', ''P1_J1_cryoatom.cif'']"
  let ?C' = "PosixPath ''/'' [''mnt'', ''P1'', ''cryoatom_P1_J1'', ''out'', ''out.cif'']"
  have p: "ext_dest_file ?P ?J = ?D"
    "ext_out_cif (ext_work_dir (out_dir demo_args) (safe_dir ?P) (uid ?P) (uid ?J)) = ?C"
    "ext_dest_file ?P' ?J' = ?D'"
    "ext_out_cif (ext_work_dir (out_dir demo_args) (safe_dir ?P') (uid ?P') (uid ?J')) = ?C'"
    by (simp_all add: ext_dest_file_def ext_out_cif_def ext_work_dir_def safe_dir_def demo_args_def
          Path_def joinpath_def join_def)
  txt \<open>the resolution on its own\<close>
  have n: "ext_dest_file ?P ?J \<notin> files demo_state
      \<and> ext_out_cif (ext_work_dir (out_dir demo_args) (safe_dir ?P) (uid ?P) (uid ?J))
          \<notin> files demo_state"
    unfolding p by (simp add: demo_state_def demo_paths)
  note a1 = artifact_resolution [where proj = ?P and src_job = ?J and a = demo_args
      and st = demo_state, THEN conjunct2, THEN conjunct2, THEN conjunct1, rule_format, OF n,
      unfolded p]
  txt \<open>the external job in the environment with another mount point\<close>
  let ?S0 = "emit (EjLog (EjCommand (auto_args demo_args))) (emit (EjLog (EjStart (job demo_args)))
            (logger INFO (WillExecute (auto_args demo_args))
              (logger INFO (CreatedExternalJob ''J2'') (emit (CreateExternalJob ''J2'')
                (logger INFO (UsingWorkspace (workspace demo_args))
                  (logger INFO (SourceJob (uid ?J'))
                    (logger INFO (FoundProject (uid ?P'))
                      (logger INFO Connecting demo_state))))))))"
  let ?r = "run_cryoatom_auto demo_lib remount_world (auto_args demo_args) ?S0"
  have e: "fst ?r = 0"
    by (simp add: remount_world_def auto_eval demo_eval auto_args_def)
  have f: "files (snd ?r)
      = {PosixPath ''/'' [''data'', ''P1'', ''J1'', ''cryoatom'', ''P1_J1_cryoatom.cif''],
         PosixPath ''/'' [''data'', ''P1'', ''J1'', ''cryoatom''],
         PosixPath ''/'' [''data'', ''P1'', ''cryoatom_P1_J1'', ''out'', ''out.cif''],
         PosixPath ''/'' [''data'', ''P1'', ''cryoatom_P1_J1'', ''out''],
         PosixPath ''/'' [''data'', ''P1'', ''cryoatom_P1_J1'', ''input_map.mrc''],
         PosixPath ''/'' [''data'', ''P1'', ''cryoatom_P1_J1'', ''input.fasta''],
         PosixPath ''/'' [''data'', ''P1'', ''cryoatom_P1_J1''],
         PosixPath ''/'' [''data'', ''P1'', ''J1'', ''map.mrc''],
         PosixPath ''/'' [''data'', ''s.fa''],
         PosixPath ''/'' [''opt'', ''run_cryoatom.py''],
         PosixPath ''/'' [''opt'', ''run_cryoatom_auto.py'']}"
    by (simp add: remount_world_def auto_eval demo_eval auto_args_def)
  have run: "?r = (0, snd ?r)"
    using e by (simp add: prod_eq_iff)
  have env: "credentials remount_world" "login remount_world ExternalJob = Some ?cs'"
    "find_project ?cs' (project demo_args) = Some ?P'"
    "find_job ?cs' (project demo_args) (job demo_args) = Some ?J'"
    "create_external_job ?cs' ?P' (workspace demo_args) = Some ''J2''"
    "joinpath (script_dir remount_world) ''run_cryoatom_auto.py'' \<in> files demo_state"
    "ej_log_ok ?cs'"
    by (simp_all add: remount_world_def demo_world_def demo_session_def demo_state_def demo_paths)
  have reach: "resolution_reached demo_lib remount_world demo_args demo_state ?cs' ?P' ?J' ''J2'' (snd ?r)"
    unfolding resolution_reached_def
    by (intro conjI)
       (rule env(1), rule env(2), rule env(3), rule env(4), rule env(5), rule env(6), rule env(7),
        rule run)
  have n': "ext_dest_file ?P' ?J' \<notin> files (snd ?r)
      \<and> ext_out_cif (ext_work_dir (out_dir demo_args) (safe_dir ?P') (uid ?P') (uid ?J'))
          \<notin> files (snd ?r)"
    unfolding p f by simp
  note a2 = artifact_resolution [where lib = demo_lib and w = remount_world and a = demo_args
      and st = demo_state and cs = ?cs' and proj = ?P' and src_job = ?J' and ej = "''J2''"
      and ?st2.0 = "snd ?r",
      THEN conjunct2, THEN conjunct2, THEN conjunct2, THEN conjunct1, rule_format,
      OF conjI [OF reach n']]
  have b1: "fst (cryoatom_external_job demo_lib remount_world demo_args demo_state) = 0"
    unfolding a2 by simp
  have b2: "last (events (snd (cryoatom_external_job demo_lib remount_world demo_args demo_state)))
       = EjLog EjEndNoOutput"
    unfolding a2 by simp
  txt \<open>the inner script in the environment where the tool writes nothing\<close>
  let ?st1 = "demo_state\<lparr>events := events demo_state @ [Log INFO (Gpu (GpuSelected 2))]\<rparr>"
  let ?a = "demo_args\<lparr>workspace := [], gpu := Some 2\<rparr>"
  let ?q = "run_cryoatom silent_world ?a (logger INFO (Calling ?a) ?st1)"
  have e3: "fst ?q = 0" by (simp add: silent_world_def demo_eval)
  have f3: "files (snd ?q)
      = {PosixPath ''/'' [''data'', ''P1'', ''cryoatom_P1_J1'', ''out''],
         PosixPath ''/'' [''data'', ''P1'', ''cryoatom_P1_J1'', ''input_map.mrc''],
         PosixPath ''/'' [''data'', ''P1'', ''cryoatom_P1_J1'', ''input.fasta''],
         PosixPath ''/'' [''data'', ''P1'', ''cryoatom_P1_J1''],
         PosixPath ''/'' [''data'', ''P1'', ''J1'', ''map.mrc''],
         PosixPath ''/'' [''data'', ''s.fa''],
         PosixPath ''/'' [''opt'', ''run_cryoatom.py''],
         PosixPath ''/'' [''opt'', ''run_cryoatom_auto.py'']}"
    by (simp add: silent_world_def demo_eval)
  have g3: "auto_select_gpu demo_lib silent_world demo_args demo_state = (2, ?st1)"
    by (rule demo_like_select_gpu) (simp_all add: silent_world_def demo_world_def demo_args_def)
  have s3: "joinpath (script_dir silent_world) ''run_cryoatom.py'' \<in> files ?st1"
    by (simp add: silent_world_def demo_world_def demo_state_def demo_paths)
  have run3: "run_cryoatom silent_world (rc_args demo_args 2)
        (logger INFO (Calling (rc_args demo_args 2)) ?st1) = (0, snd ?q)"
    using e3 by (simp add: demo_args_simps prod_eq_iff)
  have ex3: "\<exists>st1. auto_select_gpu demo_lib silent_world demo_args demo_state = (2, st1)
      \<and> joinpath (script_dir silent_world) ''run_cryoatom.py'' \<in> files st1
      \<and> run_cryoatom silent_world (rc_args demo_args 2)
           (logger INFO (Calling (rc_args demo_args 2)) st1) = (0, snd ?q)"
    by (rule exI [of _ ?st1], intro conjI) (rule g3, rule s3, rule run3)
  have env3: "credentials silent_world" "login silent_world RunCryoatomAuto = Some demo_session"
    "find_project demo_session (project demo_args) = Some ?P"
    "find_job demo_session (project demo_args) (job demo_args) = Some ?J"
    by (simp_all add: silent_world_def demo_world_def demo_session_def demo_args_def)
  have reg3: "registration_reached demo_lib silent_world demo_args demo_state 2 demo_session ?P ?J (snd ?q)"
    unfolding registration_reached_def
    by (intro conjI) (rule env3(1), rule ex3, rule env3(2), rule env3(3), rule env3(4))
  have n3: "auto_out_cif (auto_work_dir (out_dir demo_args) (safe_dir ?P) (uid ?P) (uid ?J))
      \<notin> files (snd ?q)"
    unfolding f3 by (simp add: demo_publish_paths)
  note a3 = artifact_resolution [where lib = demo_lib and w' = silent_world and a' = demo_args
      and st' = demo_state and g = 2 and cs' = demo_session and proj' = ?P and jb = ?J
      and ?st3.0 = "snd ?q",
      THEN conjunct2, THEN conjunct2, THEN conjunct2, THEN conjunct2, rule_format,
      OF conjI [OF reg3 n3]]
  have b3: "fst (run_cryoatom_auto demo_lib silent_world demo_args demo_state) = 1"
    unfolding a3 by simp
  show ?thesis
    by (intro conjI) (rule a1, rule b1, rule b2, rule b3)
qed

end
